theory Spec2Isabelle
  imports Complex_Main
begin

section \<open>Training schedulers (coursework_1/mlp/schedulers.py)\<close>

text \<open>
  The module holds two scheduler classes with one method each,
  \<^verbatim>\<open>update_learning_rule(self, learning_rule, epoch_number)\<close>.
  The embedding reads the module as Python 3:
  \<^item> \<^verbatim>\<open>epoch_number\<close> and \<^verbatim>\<open>total_epochs_per_period\<close> are Python integers (\<open>int\<close>), so
    \<^verbatim>\<open>%\<close> is the floor modulus (the sign follows the divisor, as \<open>mod\<close> on \<open>int\<close> does) and
    \<^verbatim>\<open>/\<close> is true division;
  \<^item> the rates, the two factors, \<^verbatim>\<open>tPeriod\<close> and \<^verbatim>\<open>tNext\<close> are Python floats, values in
    \<open>real\<close>; Python compares an integer with a float by value, which is equality in \<open>real\<close>;
  \<^item> a raised exception is the \<open>Inl\<close> branch of the result;
  \<^item> a method returns its value together with the updated scheduler object and the
    updated learning rule object.

  The warm-restart scheduler is given in two readings. The first takes the float
  operations, \<^verbatim>\<open>math.cos\<close> and \<^verbatim>\<open>math.pi\<close> as exact; it serves the properties of the control flow:
  which branch runs, what is assigned, when the learning rule is reset. The second, with
  names ending in \<open>_double\<close>, rounds after every float operation as IEEE 754 double
  precision does; it serves the properties that depend on the value of a returned rate to
  the last bit.
\<close>

datatype py_error = ZeroDivisionError

subsection \<open>The learning rule object\<close>

text \<open>
  The learning rule classes live in another module. The schedulers touch two things of a
  learning rule: the attribute \<^verbatim>\<open>learning_rate\<close> and the method \<^verbatim>\<open>reset()\<close>. The attribute is
  a record field, everything else of the object is the extension part of the record, and
  \<^verbatim>\<open>reset\<close> is a parameter of the functions that call it.
\<close>

record learning_rule =
  learning_rate :: real

text \<open>
  A learning rule that counts the calls of its \<^verbatim>\<open>reset()\<close>, to observe how often a scheduler
  invokes it.
\<close>

record counting_learning_rule = learning_rule +
  reset_calls :: nat

definition counting_reset :: "counting_learning_rule \<Rightarrow> counting_learning_rule" where
  "counting_reset learning_rule = learning_rule\<lparr>reset_calls := Suc (reset_calls learning_rule)\<rparr>"

subsection \<open>ConstantLearningRateScheduler\<close>

record ConstantLearningRateScheduler =
  learning_rate :: real

definition ConstantLearningRateScheduler_init :: "real \<Rightarrow> ConstantLearningRateScheduler" where
  "ConstantLearningRateScheduler_init rate = \<lparr>learning_rate = rate\<rparr>"

text \<open>
  The body is the single assignment
  \<^verbatim>\<open>learning_rule.learning_rate = self.learning_rate\<close>; there is no return statement, so
  the call evaluates to Python's \<^verbatim>\<open>None\<close>, the \<open>None\<close> of the first component.
\<close>

definition ConstantLearningRateScheduler_update_learning_rule ::
  "ConstantLearningRateScheduler \<Rightarrow> 'a learning_rule_scheme \<Rightarrow> int
    \<Rightarrow> real option \<times> ConstantLearningRateScheduler \<times> 'a learning_rule_scheme" where
  "ConstantLearningRateScheduler_update_learning_rule self learning_rule epoch_number =
     (None, self,
      learning_rule\<lparr>learning_rule.learning_rate := ConstantLearningRateScheduler.learning_rate self\<rparr>)"

subsection \<open>CosineAnnealingWithWarmRestarts\<close>

record CosineAnnealingWithWarmRestarts =
  min_learning_rate :: real
  max_learning_rate :: real
  total_epochs_per_period :: int
  max_learning_rate_discount_factor :: real
  period_iteration_expansion_factor :: real
  tNext :: real
  tPeriod :: real
  tCur :: int
  t :: int

definition CosineAnnealingWithWarmRestarts_init ::
  "real \<Rightarrow> real \<Rightarrow> int \<Rightarrow> real \<Rightarrow> real \<Rightarrow> CosineAnnealingWithWarmRestarts" where
  "CosineAnnealingWithWarmRestarts_init min_rate max_rate total_iters_per_period
       discount_factor expansion_factor =
     \<lparr>min_learning_rate = min_rate,
      max_learning_rate = max_rate,
      total_epochs_per_period = total_iters_per_period,
      max_learning_rate_discount_factor = discount_factor,
      period_iteration_expansion_factor = expansion_factor,
      tNext = real_of_int total_iters_per_period,
      tPeriod = real_of_int total_iters_per_period,
      tCur = 0,
      t = 0\<rparr>"

text \<open>Python's \<^verbatim>\<open>int(x)\<close> on a float truncates towards zero.\<close>

definition py_int :: "real \<Rightarrow> int" where
  "py_int x = (if 0 \<le> x then \<lfloor>x\<rfloor> else \<lceil>x\<rceil>)"

text \<open>
  The loop \<^verbatim>\<open>for i in range(self.t): effective_max_learning_rate *= factor\<close>, by the
  number of iterations left; \<^verbatim>\<open>range\<close> of a negative number is empty, which is
  \<open>nat\<close> of it at the call.
\<close>

fun discount_loop :: "nat \<Rightarrow> real \<Rightarrow> real \<Rightarrow> real" where
  "discount_loop 0 effective_max_learning_rate factor = effective_max_learning_rate"
| "discount_loop (Suc n) effective_max_learning_rate factor =
     discount_loop n (effective_max_learning_rate * factor) factor"

text \<open>The assignments of the restart branch (lines 84 to 88), in their order.\<close>

definition restart :: "CosineAnnealingWithWarmRestarts \<Rightarrow> CosineAnnealingWithWarmRestarts" where
  "restart self =
     (let self = self\<lparr>tPeriod := tPeriod self * period_iteration_expansion_factor self\<rparr>;
          self = self\<lparr>tNext := tNext self + tPeriod self\<rparr>;
          self = self\<lparr>t := t self + 1\<rparr>;
          self = self\<lparr>tCur := 0\<rparr>
      in self)"

text \<open>The rate of line 92, from the object's \<^verbatim>\<open>tCur\<close> at that line.\<close>

definition cosine_rate :: "CosineAnnealingWithWarmRestarts \<Rightarrow> real \<Rightarrow> real" where
  "cosine_rate self effective_max_learning_rate =
     min_learning_rate self
     + 0.5 * (effective_max_learning_rate - min_learning_rate self)
       * (1 + cos (pi * (real_of_int (tCur self) / real_of_int (total_epochs_per_period self))))"

text \<open>
  \<^verbatim>\<open>epoch_number % self.total_epochs_per_period\<close> is the first operation and raises
  \<^verbatim>\<open>ZeroDivisionError\<close> on a zero period, before any attribute is assigned; the two
  later divisions have the same divisor.
\<close>

definition CosineAnnealingWithWarmRestarts_update_learning_rule ::
  "('lr \<Rightarrow> 'lr) \<Rightarrow> CosineAnnealingWithWarmRestarts \<Rightarrow> 'lr \<Rightarrow> int
    \<Rightarrow> py_error + (real \<times> CosineAnnealingWithWarmRestarts \<times> 'lr)" where
  "CosineAnnealingWithWarmRestarts_update_learning_rule reset self learning_rule epoch_number =
     (if total_epochs_per_period self = 0 then Inl ZeroDivisionError
      else
        let self = self\<lparr>tCur := epoch_number mod total_epochs_per_period self\<rparr>;
            self = self\<lparr>t := py_int (real_of_int epoch_number
                                       / real_of_int (total_epochs_per_period self))\<rparr>;
            effective_max_learning_rate =
              discount_loop (nat (t self)) (max_learning_rate self)
                (max_learning_rate_discount_factor self);
            (self, learning_rule) =
              (if real_of_int epoch_number = tNext self
               then (restart self, reset learning_rule)
               else (self, learning_rule));
            h = cosine_rate self effective_max_learning_rate;
            self = self\<lparr>tCur := tCur self + 1\<rparr>
        in Inr (h, self, learning_rule))"

text \<open>The five attributes assigned from the constructor's arguments.\<close>

definition hyperparameters ::
  "CosineAnnealingWithWarmRestarts \<Rightarrow> real \<times> real \<times> int \<times> real \<times> real" where
  "hyperparameters self =
     (min_learning_rate self, max_learning_rate self, total_epochs_per_period self,
      max_learning_rate_discount_factor self, period_iteration_expansion_factor self)"

text \<open>
  A training run calls the scheduler once at the beginning of each epoch; \<open>run_epochs\<close>
  makes the calls for a list of epoch numbers in order, threads the scheduler and the
  learning rule through them, drops the returned rates and stops at the first
  exception.
\<close>

fun run_epochs ::
  "('lr \<Rightarrow> 'lr) \<Rightarrow> CosineAnnealingWithWarmRestarts \<Rightarrow> 'lr \<Rightarrow> int list
    \<Rightarrow> py_error + (CosineAnnealingWithWarmRestarts \<times> 'lr)" where
  "run_epochs reset self learning_rule [] = Inr (self, learning_rule)"
| "run_epochs reset self learning_rule (epoch_number # epochs) =
     (case CosineAnnealingWithWarmRestarts_update_learning_rule reset self learning_rule
             epoch_number of
        Inl err \<Rightarrow> Inl err
      | Inr (h, self', learning_rule') \<Rightarrow> run_epochs reset self' learning_rule' epochs)"

subsection \<open>Double-precision arithmetic\<close>

text \<open>
  A finite double is a real number \<open>m * 2 ^ e\<close> with an integer \<open>m\<close> of at most 53 bits and
  \<open>e\<close> at least -1074. \<open>rne\<close> rounds to the nearest integer, a tie to the even one.
  \<open>ulp_exponent x\<close> is the exponent of the spacing of the doubles around \<open>x\<close>: 52 below
  the exponent of \<open>x\<close>, and -1074 in the subnormal range. \<open>fl\<close> is the rounding of a real
  result to the nearest double, ties to even, that follows every float operation. The
  exponent has no upper limit here: a result beyond the largest double, which Python turns
  into an infinity or an \<^verbatim>\<open>OverflowError\<close>, is not represented.
\<close>

definition rne :: "real \<Rightarrow> int" where
  "rne x =
     (let f = \<lfloor>x\<rfloor>; r = x - real_of_int f
      in if r < 1 / 2 then f else if 1 / 2 < r then f + 1 else if even f then f else f + 1)"

definition ulp_exponent :: "real \<Rightarrow> int" where
  "ulp_exponent x = max (\<lfloor>log 2 \<bar>x\<bar>\<rfloor> - 52) (- 1074)"

definition fl :: "real \<Rightarrow> real" where
  "fl x =
     (if x = 0 then 0
      else real_of_int (rne (x / 2 powi ulp_exponent x)) * 2 powi ulp_exponent x)"

text \<open>
  \<^verbatim>\<open>math.pi\<close> is the double nearest to \<open>pi\<close>. \<^verbatim>\<open>math.cos\<close> belongs to the C library and not
  to the repository; it is taken as the correctly rounded cosine. What is used of it below
  is its value at 0, its range and its being monotone between 0 and \<^verbatim>\<open>math.pi\<close>.
\<close>

definition math_pi :: real where
  "math_pi = fl pi"

definition math_cos :: "real \<Rightarrow> real" where
  "math_cos x = fl (cos x)"

subsection \<open>CosineAnnealingWithWarmRestarts in double precision\<close>

text \<open>
  The same method, line by line, with the rounding after each float operation. Line 75
  divides two integers, and Python rounds the quotient of two integers correctly. In the
  restart branch \<^verbatim>\<open>tPeriod\<close> and \<^verbatim>\<open>tNext\<close> are integers at the first restart and are converted
  to floats before the operation, which is the inner \<open>fl\<close>; afterwards they are doubles
  and the conversion changes nothing. Line 92 is
  \<^verbatim>\<open>min + ((0.5 * (eff - min)) * (1 + math.cos(math.pi * (tCur / period))))\<close>.
\<close>

fun discount_loop_double :: "nat \<Rightarrow> real \<Rightarrow> real \<Rightarrow> real" where
  "discount_loop_double 0 effective_max_learning_rate factor = effective_max_learning_rate"
| "discount_loop_double (Suc n) effective_max_learning_rate factor =
     discount_loop_double n (fl (effective_max_learning_rate * factor)) factor"

definition restart_double ::
  "CosineAnnealingWithWarmRestarts \<Rightarrow> CosineAnnealingWithWarmRestarts" where
  "restart_double self =
     (let self = self\<lparr>tPeriod := fl (fl (tPeriod self) * period_iteration_expansion_factor self)\<rparr>;
          self = self\<lparr>tNext := fl (fl (tNext self) + tPeriod self)\<rparr>;
          self = self\<lparr>t := t self + 1\<rparr>;
          self = self\<lparr>tCur := 0\<rparr>
      in self)"

definition cosine_rate_double :: "CosineAnnealingWithWarmRestarts \<Rightarrow> real \<Rightarrow> real" where
  "cosine_rate_double self effective_max_learning_rate =
     fl (min_learning_rate self
         + fl (fl (0.5 * fl (effective_max_learning_rate - min_learning_rate self))
               * fl (1 + math_cos (fl (math_pi
                        * fl (real_of_int (tCur self)
                              / real_of_int (total_epochs_per_period self)))))))"

definition CosineAnnealingWithWarmRestarts_update_learning_rule_double ::
  "('lr \<Rightarrow> 'lr) \<Rightarrow> CosineAnnealingWithWarmRestarts \<Rightarrow> 'lr \<Rightarrow> int
    \<Rightarrow> py_error + (real \<times> CosineAnnealingWithWarmRestarts \<times> 'lr)" where
  "CosineAnnealingWithWarmRestarts_update_learning_rule_double reset self learning_rule
       epoch_number =
     (if total_epochs_per_period self = 0 then Inl ZeroDivisionError
      else
        let self = self\<lparr>tCur := epoch_number mod total_epochs_per_period self\<rparr>;
            self = self\<lparr>t := py_int (fl (real_of_int epoch_number
                                           / real_of_int (total_epochs_per_period self)))\<rparr>;
            effective_max_learning_rate =
              discount_loop_double (nat (t self)) (max_learning_rate self)
                (max_learning_rate_discount_factor self);
            (self, learning_rule) =
              (if real_of_int epoch_number = tNext self
               then (restart_double self, reset learning_rule)
               else (self, learning_rule));
            h = cosine_rate_double self effective_max_learning_rate;
            self = self\<lparr>tCur := tCur self + 1\<rparr>
        in Inr (h, self, learning_rule))"

fun run_epochs_double ::
  "('lr \<Rightarrow> 'lr) \<Rightarrow> CosineAnnealingWithWarmRestarts \<Rightarrow> 'lr \<Rightarrow> int list
    \<Rightarrow> py_error + (CosineAnnealingWithWarmRestarts \<times> 'lr)" where
  "run_epochs_double reset self learning_rule [] = Inr (self, learning_rule)"
| "run_epochs_double reset self learning_rule (epoch_number # epochs) =
     (case CosineAnnealingWithWarmRestarts_update_learning_rule_double reset self learning_rule
             epoch_number of
        Inl err \<Rightarrow> Inl err
      | Inr (h, self', learning_rule') \<Rightarrow> run_epochs_double reset self' learning_rule' epochs)"

text \<open>
  The two configurations of the concrete scenarios: minimum rate 0, maximum rate 1, a period
  of 10 epochs and expansion factor 1, with discount factor 1 and with discount factor 1/2.
\<close>

abbreviation scenario_plain :: CosineAnnealingWithWarmRestarts where
  "scenario_plain \<equiv> CosineAnnealingWithWarmRestarts_init 0 1 10 1 1"

abbreviation scenario_discount :: CosineAnnealingWithWarmRestarts where
  "scenario_discount \<equiv> CosineAnnealingWithWarmRestarts_init 0 1 10 (1 / 2) 1"

text \<open>A learning rule on which \<^verbatim>\<open>reset()\<close> has not been called yet.\<close>

abbreviation fresh_rule :: counting_learning_rule where
  "fresh_rule \<equiv> \<lparr>learning_rule.learning_rate = 0, reset_calls = 0\<rparr>"

text \<open>
  Two more configurations with period 10 and expansion factor 1: minimum rate 0.001, maximum
  rate 0.1 and discount factor 0.1, each the double nearest to the decimal; and minimum rate
  1/2, maximum rate 1 and discount factor 1/2.
\<close>

abbreviation scenario_tie :: CosineAnnealingWithWarmRestarts where
  "scenario_tie \<equiv>
     CosineAnnealingWithWarmRestarts_init (fl (1 / 1000)) (fl (1 / 10)) 10 (fl (1 / 10)) 1"

abbreviation scenario_below :: CosineAnnealingWithWarmRestarts where
  "scenario_below \<equiv> CosineAnnealingWithWarmRestarts_init (1 / 2) 1 10 (1 / 2) 1"


section \<open>Basic facts\<close>

lemma discount_loop_power:
  "discount_loop n effective_max_learning_rate factor = effective_max_learning_rate * factor ^ n"
  by (induction n arbitrary: effective_max_learning_rate) (simp_all add: mult.assoc)

lemma py_int_nonneg_div:
  "0 \<le> a \<Longrightarrow> 0 < b \<Longrightarrow> py_int (real_of_int a / real_of_int b) = a div b"
  by (simp add: py_int_def floor_divide_of_int_eq)

lemma py_int_neg_nonpos:
  "a < 0 \<Longrightarrow> 0 < b \<Longrightarrow> py_int (real_of_int a / real_of_int b) \<le> 0"
  by (simp add: py_int_def ceiling_le_iff divide_nonpos_pos divide_neg_pos)

lemma nat_py_int_div:
  assumes "0 < b"
  shows "nat (py_int (real_of_int a / real_of_int b)) = nat (a div b)"
proof (cases "0 \<le> a")
  case True
  with assms show ?thesis by (simp add: py_int_nonneg_div)
next
  case False
  with assms have "py_int (real_of_int a / real_of_int b) \<le> 0"
    by (simp add: py_int_neg_nonpos)
  moreover from False assms have "a div b < 0"
    by (intro div_neg_pos_less0) simp_all
  ultimately show ?thesis by simp
qed

text \<open>One call in closed form: the rate, the scheduler and the learning rule after it.\<close>

lemma update_learning_rule_eq:
  "total_epochs_per_period self \<noteq> 0 \<Longrightarrow>
   CosineAnnealingWithWarmRestarts_update_learning_rule reset self learning_rule epoch_number =
     Inr (if real_of_int epoch_number = tNext self
          then discount_loop
                 (nat (py_int (real_of_int epoch_number
                               / real_of_int (total_epochs_per_period self))))
                 (max_learning_rate self) (max_learning_rate_discount_factor self)
          else cosine_rate (self\<lparr>tCur := epoch_number mod total_epochs_per_period self\<rparr>)
                 (discount_loop
                    (nat (py_int (real_of_int epoch_number
                                  / real_of_int (total_epochs_per_period self))))
                    (max_learning_rate self) (max_learning_rate_discount_factor self)),
          if real_of_int epoch_number = tNext self
          then self\<lparr>tPeriod := tPeriod self * period_iteration_expansion_factor self,
                    tNext := tNext self + tPeriod self * period_iteration_expansion_factor self,
                    t := py_int (real_of_int epoch_number
                                 / real_of_int (total_epochs_per_period self)) + 1,
                    tCur := 1\<rparr>
          else self\<lparr>t := py_int (real_of_int epoch_number
                                  / real_of_int (total_epochs_per_period self)),
                    tCur := epoch_number mod total_epochs_per_period self + 1\<rparr>,
          if real_of_int epoch_number = tNext self then reset learning_rule else learning_rule)"
  by (simp add: CosineAnnealingWithWarmRestarts_update_learning_rule_def Let_def restart_def
      cosine_rate_def diff_divide_distrib)

lemma update_learning_rule_zero_period:
  "total_epochs_per_period self = 0 \<Longrightarrow>
   CosineAnnealingWithWarmRestarts_update_learning_rule reset self learning_rule epoch_number =
     Inl ZeroDivisionError"
  by (simp add: CosineAnnealingWithWarmRestarts_update_learning_rule_def)

section \<open>Rounding to double precision\<close>

lemma rne_of_int [simp]: "rne (real_of_int n) = n"
  by (simp add: rne_def)

lemma rne_bounds: "\<lfloor>x\<rfloor> \<le> rne x \<and> rne x \<le> \<lfloor>x\<rfloor> + 1"
  by (simp add: rne_def Let_def)

lemma rne_mono: "x \<le> y \<Longrightarrow> rne x \<le> rne y"
proof -
  assume xy: "x \<le> y"
  then have fg: "\<lfloor>x\<rfloor> \<le> \<lfloor>y\<rfloor>" by (rule floor_mono)
  show ?thesis
  proof (cases "\<lfloor>x\<rfloor> = \<lfloor>y\<rfloor>")
    case True
    with xy show ?thesis by (auto simp: rne_def Let_def)
  next
    case False
    with fg have "\<lfloor>x\<rfloor> + 1 \<le> \<lfloor>y\<rfloor>" by simp
    with rne_bounds [of x] rne_bounds [of y] show ?thesis by linarith
  qed
qed

lemma rne_minus: "rne (- x) = - rne x"
proof (cases "x \<in> \<int>")
  case True
  then obtain n where "x = real_of_int n" by (auto elim: Ints_cases)
  then have "- x = real_of_int (- n)" by simp
  then show ?thesis using \<open>x = real_of_int n\<close> by (simp only: rne_of_int)
next
  case False
  then have "x \<noteq> real_of_int \<lfloor>x\<rfloor>" by (metis Ints_of_int)
  then have c: "\<lceil>x\<rceil> = \<lfloor>x\<rfloor> + 1" by (simp add: ceiling_altdef)
  have f: "\<lfloor>- x\<rfloor> = - \<lfloor>x\<rfloor> - 1" using c by (simp add: floor_minus)
  show ?thesis
    unfolding rne_def Let_def f by auto
qed

lemma rne_error: "\<bar>real_of_int (rne x) - x\<bar> \<le> 1 / 2"
  unfolding rne_def Let_def by (auto simp: abs_le_iff)

lemma rne_zero [simp]: "rne 0 = 0"
  using rne_of_int [of 0] by simp

lemma rne_nonneg: "0 \<le> x \<Longrightarrow> 0 \<le> rne x"
  using rne_mono [of 0 x] by simp

lemma powr_eq_powi: "2 powr real_of_int n = (2::real) powi n"
  by (simp add: powr_real_of_int power_int_def power_one_over inverse_eq_divide)

lemma binade_iff:
  assumes "x \<noteq> 0"
  shows "\<lfloor>log 2 \<bar>x\<bar>\<rfloor> = k \<longleftrightarrow> 2 powi k \<le> \<bar>x\<bar> \<and> \<bar>x\<bar> < 2 powi (k + 1)"
proof -
  have "2 powr (real_of_int k + 1) = (2::real) powi (k + 1)"
    using powr_eq_powi [of "k + 1"] by simp
  moreover have "0 < \<bar>x\<bar>" using assms by simp
  ultimately show ?thesis
    using floor_log_eq_powr_iff [of "\<bar>x\<bar>" 2 k] by (simp only: powr_eq_powi)
qed

lemma binade_bounds:
  assumes "x \<noteq> 0"
  shows "2 powi \<lfloor>log 2 \<bar>x\<bar>\<rfloor> \<le> \<bar>x\<bar>" and "\<bar>x\<bar> < 2 powi (\<lfloor>log 2 \<bar>x\<bar>\<rfloor> + 1)"
  using binade_iff [OF assms, of "\<lfloor>log 2 \<bar>x\<bar>\<rfloor>"] by simp_all

lemma binade_eqI:
  assumes "2 powi k \<le> \<bar>x\<bar>" and "\<bar>x\<bar> < 2 powi (k + 1)"
  shows "\<lfloor>log 2 \<bar>x\<bar>\<rfloor> = k"
proof -
  have "0 < (2::real) powi k" by simp
  with assms(1) have "0 < \<bar>x\<bar>" by linarith
  then have "x \<noteq> 0" by simp
  from binade_iff [OF this, of k] assms show ?thesis by simp
qed

lemma fl_zero [simp]: "fl 0 = 0"
  by (simp add: fl_def)

lemma fl_minus: "fl (- x) = - fl x"
  by (simp add: fl_def ulp_exponent_def rne_minus)

lemma fl_nonneg: "0 \<le> x \<Longrightarrow> 0 \<le> fl x"
  by (simp add: fl_def rne_nonneg)

lemma fl_eval:
  assumes "2 powi k \<le> \<bar>x\<bar>" and "\<bar>x\<bar> < 2 powi (k + 1)"
  shows "fl x = real_of_int (rne (x / 2 powi max (k - 52) (- 1074))) * 2 powi max (k - 52) (- 1074)"
proof -
  have "0 < (2::real) powi k" by simp
  with assms(1) have "0 < \<bar>x\<bar>" by linarith
  then have "x \<noteq> 0" by simp
  then show ?thesis
    using binade_eqI [OF assms] by (simp add: fl_def ulp_exponent_def)
qed

lemma two_powi_less_exp: "(2::real) powi a < 2 powi b \<Longrightarrow> a < b"
proof (rule ccontr)
  assume lt: "(2::real) powi a < 2 powi b" and "\<not> a < b"
  then have "b \<le> a" by simp
  then have "(2::real) powi b \<le> 2 powi a" by (intro power_int_increasing) simp_all
  with lt show False by simp
qed

lemma binade_less: "x \<noteq> 0 \<Longrightarrow> \<bar>x\<bar> < 2 powi n \<Longrightarrow> \<lfloor>log 2 \<bar>x\<bar>\<rfloor> < n"
  using binade_bounds(1) [of x] by (intro two_powi_less_exp [of _ n]) linarith

lemma binade_ge: "2 powi n \<le> \<bar>x\<bar> \<Longrightarrow> n \<le> \<lfloor>log 2 \<bar>x\<bar>\<rfloor>"
proof -
  assume a: "2 powi n \<le> \<bar>x\<bar>"
  have "0 < (2::real) powi n" by simp
  with a have "0 < \<bar>x\<bar>" by linarith
  then have "x \<noteq> 0" by simp
  from binade_bounds(2) [OF this] a have "(2::real) powi n < 2 powi (\<lfloor>log 2 \<bar>x\<bar>\<rfloor> + 1)"
    by linarith
  then have "n < \<lfloor>log 2 \<bar>x\<bar>\<rfloor> + 1" by (rule two_powi_less_exp)
  then show ?thesis by simp
qed

lemma two_powi_int: "0 \<le> n \<Longrightarrow> (2::real) powi n = real_of_int (2 ^ nat n)"
  by (simp add: power_int_nonneg_exp)

lemma fl_of_multiple:
  assumes "x / 2 powi ulp_exponent x = real_of_int n"
  shows "fl x = x"
proof (cases "x = 0")
  case True
  then show ?thesis by simp
next
  case False
  then have "fl x = real_of_int (rne (x / 2 powi ulp_exponent x)) * 2 powi ulp_exponent x"
    by (simp add: fl_def)
  also have "\<dots> = (x / 2 powi ulp_exponent x) * 2 powi ulp_exponent x"
    by (simp only: assms rne_of_int)
  also have "\<dots> = x" by simp
  finally show ?thesis .
qed

lemma fl_representable:
  assumes m: "\<bar>m\<bar> \<le> 2 ^ 53" and e: "- 1074 \<le> e"
  shows "fl (real_of_int m * 2 powi e) = real_of_int m * 2 powi e"
proof (cases "m = 0")
  case True
  then show ?thesis by simp
next
  case False
  define x where "x = real_of_int m * 2 powi e"
  have x0: "x \<noteq> 0" using False by (simp add: x_def)
  have absx: "\<bar>x\<bar> = real_of_int \<bar>m\<bar> * 2 powi e" by (simp add: x_def abs_mult)
  have "\<exists>n. x / 2 powi ulp_exponent x = real_of_int n"
  proof (cases "\<bar>m\<bar> = 2 ^ 53")
    case True
    then have "\<bar>x\<bar> = 2 powi (e + 53)"
      by (simp add: absx power_int_add)
    then have "\<lfloor>log 2 \<bar>x\<bar>\<rfloor> = e + 53"
      by (intro binade_eqI) (simp_all add: power_int_add)
    with e have E: "ulp_exponent x = e + 1" by (simp add: ulp_exponent_def)
    have "even \<bar>m\<bar>" unfolding True by simp
    then have "even m" by simp
    then obtain h where h: "m = 2 * h" by (auto elim: evenE)
    have "x / 2 powi (e + 1) = real_of_int h"
      by (simp add: x_def h power_int_add)
    then show ?thesis unfolding E by blast
  next
    case False
    with m have "\<bar>m\<bar> < 2 ^ 53" by simp
    then have lt: "real_of_int \<bar>m\<bar> < 2 powi 53" by simp
    have "\<bar>x\<bar> < 2 powi (e + 53)"
      using lt by (simp add: absx power_int_add)
    with x0 have "\<lfloor>log 2 \<bar>x\<bar>\<rfloor> < e + 53" by (rule binade_less)
    with e have E: "ulp_exponent x \<le> e" by (simp add: ulp_exponent_def)
    define d where "d = e - ulp_exponent x"
    have d: "0 \<le> d" using E by (simp add: d_def)
    have "x / 2 powi ulp_exponent x = real_of_int m * 2 powi d"
      by (simp add: x_def d_def power_int_diff)
    also have "\<dots> = real_of_int (m * 2 ^ nat d)"
      using d by (simp add: two_powi_int)
    finally show ?thesis by blast
  qed
  then obtain n where "x / 2 powi ulp_exponent x = real_of_int n" by blast
  then have "fl x = x" by (rule fl_of_multiple)
  then show ?thesis by (simp add: x_def)
qed

lemma fl_pos_eq: "x \<noteq> 0 \<Longrightarrow>
    fl x = real_of_int (rne (x / 2 powi ulp_exponent x)) * 2 powi ulp_exponent x"
  by (simp add: fl_def)

lemma fl_mono_pos:
  assumes "0 < x" and "x \<le> y"
  shows "fl x \<le> fl y"
proof -
  from assms have x0: "x \<noteq> 0" and y0: "y \<noteq> 0" by simp_all
  define bx where "bx = \<lfloor>log 2 \<bar>x\<bar>\<rfloor>"
  define bY where "bY = \<lfloor>log 2 \<bar>y\<bar>\<rfloor>"
  define Ex where "Ex = ulp_exponent x"
  define Ey where "Ey = ulp_exponent y"
  have Ex: "Ex = max (bx - 52) (- 1074)" and Ey: "Ey = max (bY - 52) (- 1074)"
    by (simp_all add: Ex_def Ey_def bx_def bY_def ulp_exponent_def)
  have "2 powi bx \<le> \<bar>x\<bar>" unfolding bx_def using x0 by (rule binade_bounds)
  with assms have "2 powi bx \<le> \<bar>y\<bar>" by simp
  then have bxy: "bx \<le> bY" unfolding bY_def by (rule binade_ge)
  have fx: "fl x = real_of_int (rne (x / 2 powi Ex)) * 2 powi Ex"
    unfolding Ex_def using x0 by (rule fl_pos_eq)
  have fy: "fl y = real_of_int (rne (y / 2 powi Ey)) * 2 powi Ey"
    unfolding Ey_def using y0 by (rule fl_pos_eq)
  show ?thesis
  proof (cases "Ex = Ey")
    case True
    have "x / 2 powi Ey \<le> y / 2 powi Ey"
      using assms by (intro divide_right_mono) simp_all
    then have "rne (x / 2 powi Ey) \<le> rne (y / 2 powi Ey)" by (rule rne_mono)
    then have "real_of_int (rne (x / 2 powi Ey)) * 2 powi Ey
        \<le> real_of_int (rne (y / 2 powi Ey)) * 2 powi Ey"
      by (intro mult_right_mono) simp_all
    then show ?thesis by (simp add: fx fy True)
  next
    case False
    with bxy have lt: "Ex < Ey" unfolding Ex Ey by arith
    then have Ey': "Ey = bY - 52" unfolding Ex Ey by arith
    from lt have "bx + 1 \<le> bY" unfolding Ex Ey by arith
    then have "(2::real) powi (bx + 1) \<le> 2 powi bY" by (intro power_int_increasing) simp_all
    moreover have "\<bar>x\<bar> < 2 powi (bx + 1)" unfolding bx_def using x0 by (rule binade_bounds)
    ultimately have xb: "x \<le> 2 powi bY" using assms by simp
    have yb: "2 powi bY \<le> y"
      using binade_bounds(1) [OF y0] assms by (simp add: bY_def)
    define d where "d = bY - Ex"
    have d: "0 \<le> d" using lt by (simp add: d_def Ey')
    have "x / 2 powi Ex \<le> 2 powi bY / 2 powi Ex"
      using xb by (intro divide_right_mono) simp_all
    also have "\<dots> = real_of_int (2 ^ nat d)"
      using two_powi_int [OF d] by (simp add: d_def power_int_diff)
    finally have "rne (x / 2 powi Ex) \<le> rne (real_of_int (2 ^ nat d))" by (rule rne_mono)
    then have "real_of_int (rne (x / 2 powi Ex)) \<le> real_of_int (2 ^ nat d)"
      by (simp only: rne_of_int of_int_le_iff)
    then have "real_of_int (rne (x / 2 powi Ex)) * 2 powi Ex \<le> real_of_int (2 ^ nat d) * 2 powi Ex"
      by (intro mult_right_mono) simp_all
    also have "real_of_int (2 ^ nat d) * 2 powi Ex = 2 powi bY"
    proof -
      have "real_of_int (2 ^ nat d) * 2 powi Ex = 2 powi d * 2 powi Ex"
        using two_powi_int [OF d] by simp
      also have "\<dots> = 2 powi (d + Ex)" by (simp add: power_int_add)
      finally show ?thesis by (simp add: d_def)
    qed
    finally have low: "fl x \<le> 2 powi bY" by (simp add: fx)
    have p52: "real_of_int (2 ^ 52) * 2 powi Ey = 2 powi bY"
    proof -
      have "real_of_int (2 ^ 52) * 2 powi Ey = 2 powi 52 * 2 powi Ey" by simp
      also have "\<dots> = 2 powi (52 + Ey)" by (subst power_int_add) simp_all
      finally show ?thesis by (simp add: Ey')
    qed
    then have "real_of_int (2 ^ 52) = 2 powi bY / 2 powi Ey"
      by (simp add: field_simps)
    also have "\<dots> \<le> y / 2 powi Ey"
      using yb by (intro divide_right_mono) simp_all
    finally have "rne (real_of_int (2 ^ 52)) \<le> rne (y / 2 powi Ey)" by (rule rne_mono)
    then have "real_of_int (2 ^ 52) \<le> real_of_int (rne (y / 2 powi Ey))"
      by (simp only: rne_of_int of_int_le_iff)
    then have ge: "real_of_int (2 ^ 52) * 2 powi Ey \<le> real_of_int (rne (y / 2 powi Ey)) * 2 powi Ey"
      by (intro mult_right_mono) simp_all
    have "2 powi bY \<le> fl y" unfolding fy p52 [symmetric] by (rule ge)
    with low show ?thesis by linarith
  qed
qed

lemma fl_nonpos: "x \<le> 0 \<Longrightarrow> fl x \<le> 0"
  using fl_nonneg [of "- x"] by (simp add: fl_minus)

lemma fl_mono:
  assumes "x \<le> y"
  shows "fl x \<le> fl y"
proof -
  consider "0 < x" | "x \<le> 0" "0 \<le> y" | "y < 0" by linarith
  then show ?thesis
  proof cases
    case 1
    from 1 assms show ?thesis by (rule fl_mono_pos)
  next
    case 2
    then have "fl x \<le> 0" "0 \<le> fl y" by (simp_all add: fl_nonpos fl_nonneg)
    then show ?thesis by linarith
  next
    case 3
    with assms have "0 < - y" "- y \<le> - x" by simp_all
    then have "fl (- y) \<le> fl (- x)" by (rule fl_mono_pos)
    then show ?thesis by (simp add: fl_minus)
  qed
qed

lemma fl_is_representable:
  "\<exists>m e. fl x = real_of_int m * 2 powi e \<and> \<bar>m\<bar> \<le> 2 ^ 53 \<and> - 1074 \<le> e"
proof (cases "x = 0")
  case True
  then have "fl x = real_of_int 0 * 2 powi 0" by simp
  then show ?thesis by (intro exI [of _ 0] exI [of _ "0::int"]) simp
next
  case False
  define b where "b = \<lfloor>log 2 \<bar>x\<bar>\<rfloor>"
  define E where "E = ulp_exponent x"
  have E: "E = max (b - 52) (- 1074)" by (simp add: E_def b_def ulp_exponent_def)
  define d where "d = b + 1 - E"
  have d: "d \<le> 53" unfolding d_def E by arith
  have "\<bar>x\<bar> < 2 powi (b + 1)" unfolding b_def using False by (rule binade_bounds)
  then have "\<bar>x\<bar> / 2 powi E < 2 powi (b + 1) / 2 powi E"
    by (intro divide_strict_right_mono) simp_all
  also have "2 powi (b + 1) / 2 powi E = (2::real) powi d"
    by (simp add: d_def power_int_diff)
  also have "\<dots> \<le> 2 powi 53" using d by (intro power_int_increasing) simp_all
  finally have bound: "\<bar>x / 2 powi E\<bar> \<le> real_of_int (2 ^ 53)" by (simp add: abs_divide)
  then have "x / 2 powi E \<le> real_of_int (2 ^ 53) \<and> - (x / 2 powi E) \<le> real_of_int (2 ^ 53)"
    by (simp only: abs_le_iff)
  then have "x / 2 powi E \<le> real_of_int (2 ^ 53)" "real_of_int (- (2 ^ 53)) \<le> x / 2 powi E"
    by linarith+
  then have "rne (x / 2 powi E) \<le> rne (real_of_int (2 ^ 53))"
    "rne (real_of_int (- (2 ^ 53))) \<le> rne (x / 2 powi E)"
    by (simp_all only: rne_mono)
  then have m: "\<bar>rne (x / 2 powi E)\<bar> \<le> 2 ^ 53"
    by (simp only: rne_of_int abs_le_iff) simp
  have "fl x = real_of_int (rne (x / 2 powi E)) * 2 powi E"
    unfolding E_def using False by (rule fl_pos_eq)
  moreover have "- 1074 \<le> E" by (simp add: E)
  ultimately show ?thesis using m by blast
qed

lemma fl_idem [simp]: "fl (fl x) = fl x"
proof -
  obtain m e where "fl x = real_of_int m * 2 powi e" "\<bar>m\<bar> \<le> 2 ^ 53" "- 1074 \<le> e"
    using fl_is_representable by blast
  then show ?thesis by (simp only: fl_representable)
qed

lemma binade_half:
  assumes "x \<noteq> 0"
  shows "\<lfloor>log 2 \<bar>x / 2\<bar>\<rfloor> = \<lfloor>log 2 \<bar>x\<bar>\<rfloor> - 1"
proof (rule binade_eqI)
  let ?b = "\<lfloor>log 2 \<bar>x\<bar>\<rfloor>"
  have h: "(2::real) powi (?b - 1) = 2 powi ?b / 2" by (simp add: power_int_diff)
  show "2 powi (?b - 1) \<le> \<bar>x / 2\<bar>"
    using binade_bounds(1) [OF assms] by (simp add: h)
  have "\<bar>x\<bar> < 2 powi ?b * 2"
    using binade_bounds(2) [OF assms] by (simp add: power_int_add)
  then show "\<bar>x / 2\<bar> < 2 powi (?b - 1 + 1)" by simp
qed

lemma fl_half:
  assumes "2 powi (- 1021) \<le> \<bar>x\<bar>"
  shows "fl (x / 2) = fl x / 2"
proof -
  have "0 < (2::real) powi (- 1021)" by simp
  with assms have "0 < \<bar>x\<bar>" by linarith
  then have x0: "x \<noteq> 0" by simp
  define b where "b = \<lfloor>log 2 \<bar>x\<bar>\<rfloor>"
  have b: "- 1021 \<le> b" unfolding b_def using assms by (rule binade_ge)
  have "ulp_exponent x = max (b - 52) (- 1074)"
    by (simp only: ulp_exponent_def b_def)
  moreover have "ulp_exponent (x / 2) = max (b - 1 - 52) (- 1074)"
    by (simp only: ulp_exponent_def b_def binade_half [OF x0])
  ultimately have E: "ulp_exponent x = b - 52" "ulp_exponent (x / 2) = b - 53"
    using b by arith+
  have p: "(2::real) powi (b - 53) = 2 powi (b - 52) / 2"
    using power_int_diff [of "2::real" "b - 52" 1] by simp
  have "fl (x / 2) = real_of_int (rne (x / 2 / 2 powi (b - 53))) * 2 powi (b - 53)"
    using x0 fl_pos_eq [of "x / 2"] by (simp add: E)
  also have "\<dots> = real_of_int (rne (x / 2 powi (b - 52))) * 2 powi (b - 52) / 2"
    by (simp add: p)
  also have "\<dots> = fl x / 2"
    using x0 fl_pos_eq [of x] by (simp add: E)
  finally show ?thesis .
qed

lemma fl_1 [simp]: "fl 1 = 1"
  using fl_representable [of 1 0] by simp

lemma fl_2 [simp]: "fl 2 = 2"
  using fl_representable [of 2 0] by simp

section \<open>The double-precision reading\<close>

lemma fl_of_int: "\<bar>n\<bar> \<le> 2 ^ 53 \<Longrightarrow> fl (real_of_int n) = real_of_int n"
  using fl_representable [of n 0] by simp

lemma fl_small_numerals:
  "fl 10 = 10" "fl 20 = 20" "fl 30 = 30" "fl (1 / 2) = 1 / 2" "fl (1 / 4) = 1 / 4"
  "fl (3 / 2) = 3 / 2" "fl (5 / 2) = 5 / 2"
  using fl_of_int [of 10] fl_of_int [of 20] fl_of_int [of 30]
    fl_representable [of 1 "- 1"] fl_representable [of 1 "- 2"]
    fl_representable [of 3 "- 1"] fl_representable [of 5 "- 1"]
  by simp_all

lemma math_cos_0 [simp]: "math_cos 0 = 1"
  by (simp add: math_cos_def)

lemma math_pi_bounds: "2 \<le> math_pi" "math_pi \<le> 4"
proof -
  have "fl 2 \<le> fl pi" by (intro fl_mono pi_ge_two)
  then show "2 \<le> math_pi" by (simp add: math_pi_def)
  have "fl pi \<le> fl 4" using pi_less_4 by (intro fl_mono) simp
  moreover have "fl 4 = 4" using fl_of_int [of 4] by simp
  ultimately show "math_pi \<le> 4" by (simp add: math_pi_def)
qed

lemma math_pi_error: "\<bar>math_pi - pi\<bar> \<le> 2 powi (- 52)"
proof -
  have "2 powi 1 \<le> \<bar>pi\<bar>" "\<bar>pi\<bar> < 2 powi (1 + 1)"
    using pi_ge_two pi_less_4 by simp_all
  then have "fl pi = real_of_int (rne (pi / 2 powi max (1 - 52) (- 1074))) * 2 powi max (1 - 52) (- 1074)"
    by (rule fl_eval)
  then have e: "math_pi = real_of_int (rne (pi * 2 ^ 51)) / 2 ^ 51"
    by (simp add: math_pi_def)
  have "\<bar>real_of_int (rne (pi * 2 ^ 51)) - pi * 2 ^ 51\<bar> \<le> 1 / 2" by (rule rne_error)
  then have "\<bar>real_of_int (rne (pi * 2 ^ 51)) - pi * 2 ^ 51\<bar> / 2 ^ 51 \<le> 1 / 2 / 2 ^ 51"
    by (intro divide_right_mono) simp_all
  moreover have "\<bar>real_of_int (rne (pi * 2 ^ 51)) - pi * 2 ^ 51\<bar> / 2 ^ 51 = \<bar>math_pi - pi\<bar>"
    unfolding e by (simp add: field_simps abs_divide)
  ultimately show ?thesis by simp
qed

lemma cos_near_pi:
  assumes "pi \<le> x" and "x \<le> pi + 2 powi (- 52)"
  shows "cos x \<le> - 1 + 2 powi (- 60)"
proof -
  define w where "w = (x - pi) / 2"
  have w: "0 \<le> w" "w \<le> 2 powi (- 53)" using assms by (simp_all add: w_def)
  have "2 * w = x - pi" by (simp add: w_def)
  then have "cos (2 * w) = - cos x" by (simp only: cos_minus_pi)
  then have "cos x = - cos (2 * w)" by simp
  also have "\<dots> = - 1 + 2 * (sin w)\<^sup>2" by (simp add: cos_double_sin)
  finally have c: "cos x = - 1 + 2 * (sin w)\<^sup>2" .
  have "\<bar>sin w\<bar> \<le> \<bar>w\<bar>" by (rule abs_sin_x_le_abs_x)
  with w have "\<bar>sin w\<bar> \<le> 2 powi (- 53)" by simp
  then have "(sin w)\<^sup>2 \<le> (2 powi (- 53))\<^sup>2"
    by (metis abs_ge_zero power2_abs power_mono)
  also have "\<dots> \<le> 2 powi (- 61)" by (simp add: power2_eq_square)
  finally show ?thesis unfolding c by simp
qed

lemma math_cos_bounds: "- 1 \<le> math_cos x" "math_cos x \<le> 1"
proof -
  have "fl (- 1) \<le> fl (cos x)" by (intro fl_mono) simp
  then show "- 1 \<le> math_cos x" by (simp add: math_cos_def fl_minus)
  have "fl (cos x) \<le> fl 1" by (intro fl_mono) simp
  then show "math_cos x \<le> 1" by (simp add: math_cos_def)
qed

lemma math_cos_beyond_pi:
  assumes "pi < y" and "y \<le> math_pi"
  shows "math_cos y \<le> - 1"
proof -
  from math_pi_error have "math_pi \<le> pi + 2 powi (- 52)" by linarith
  with assms have "cos y \<le> - 1 + 2 powi (- 60)" by (intro cos_near_pi) simp_all
  then have "fl (cos y) \<le> fl (- 1 + 2 powi (- 60))" by (rule fl_mono)
  also have "fl (- 1 + 2 powi (- 60)) = - 1"
    using fl_eval [of "- 1" "- 1 + 2 powi (- 60)"] by (simp add: rne_def)
  finally show ?thesis by (simp add: math_cos_def)
qed

lemma math_cos_antimono:
  assumes "0 \<le> x" and "x \<le> y" and "y \<le> math_pi"
  shows "math_cos y \<le> math_cos x"
proof (cases "y \<le> pi")
  case True
  with assms have "cos y \<le> cos x" by (intro cos_monotone_0_pi_le)
  then show ?thesis unfolding math_cos_def by (rule fl_mono)
next
  case False
  then have "math_cos y \<le> - 1" using assms(3) by (intro math_cos_beyond_pi) simp_all
  with math_cos_bounds(1) [of x] show ?thesis by linarith
qed

lemma py_int_fl_between:
  assumes "0 \<le> k" and "k \<le> 2 ^ 53" and "real_of_int k \<le> x" and "x \<le> u"
    and "fl u = u" and "u < real_of_int k + 1"
  shows "py_int (fl x) = k"
proof -
  have "fl (real_of_int k) \<le> fl x" using assms(3) by (rule fl_mono)
  moreover have "fl (real_of_int k) = real_of_int k" using assms(1,2) by (intro fl_of_int) simp
  moreover have "fl x \<le> fl u" using assms(4) by (rule fl_mono)
  ultimately have "real_of_int k \<le> fl x" "fl x < real_of_int k + 1"
    using assms(5,6) by simp_all
  then have "\<lfloor>fl x\<rfloor> = k" by linarith
  moreover have "0 \<le> fl x" using \<open>real_of_int k \<le> fl x\<close> assms(1) by simp
  ultimately show ?thesis by (simp add: py_int_def)
qed

lemma update_learning_rule_double_eq:
  "total_epochs_per_period self \<noteq> 0 \<Longrightarrow>
   CosineAnnealingWithWarmRestarts_update_learning_rule_double reset self learning_rule
       epoch_number =
     Inr (cosine_rate_double
            (if real_of_int epoch_number = tNext self then self\<lparr>tCur := 0\<rparr>
             else self\<lparr>tCur := epoch_number mod total_epochs_per_period self\<rparr>)
            (discount_loop_double
               (nat (py_int (fl (real_of_int epoch_number
                                 / real_of_int (total_epochs_per_period self)))))
               (max_learning_rate self) (max_learning_rate_discount_factor self)),
          if real_of_int epoch_number = tNext self
          then self\<lparr>tPeriod := fl (fl (tPeriod self) * period_iteration_expansion_factor self),
                    tNext := fl (fl (tNext self)
                                 + fl (fl (tPeriod self) * period_iteration_expansion_factor self)),
                    t := py_int (fl (real_of_int epoch_number
                                     / real_of_int (total_epochs_per_period self))) + 1,
                    tCur := 1\<rparr>
          else self\<lparr>t := py_int (fl (real_of_int epoch_number
                                      / real_of_int (total_epochs_per_period self))),
                    tCur := epoch_number mod total_epochs_per_period self + 1\<rparr>,
          if real_of_int epoch_number = tNext self then reset learning_rule else learning_rule)"
  by (simp add: CosineAnnealingWithWarmRestarts_update_learning_rule_double_def Let_def
      restart_double_def cosine_rate_double_def)

section \<open>The first call\<close>

lemma double_0_3: "fl (3 / 10) = 5404319552844595 / 2 ^ 54"
  using fl_eval [of "- 2" "3 / 10"] by (simp add: rne_def)

lemma double_0_9: "fl (9 / 10) = 8106479329266893 / 2 ^ 53"
  using fl_eval [of "- 1" "9 / 10"] by (simp add: rne_def)

text \<open>
  Against claim C1 as stated: with minimum rate 0.3 and maximum rate 0.9 (the doubles
  nearest to 3/10 and 9/10), period 10 and both factors 1, the first call, for epoch 0,
  returns \<open>4053239664633447 / 2 ^ 52\<close>, printed 0.9000000000000001, the double next above
  the maximum rate \<open>8106479329266893 / 2 ^ 53\<close>: the difference 0.9 - 0.3 is rounded up, and
  so is the sum.
\<close>

theorem first_call_not_max_rate_counterexample:
  "CosineAnnealingWithWarmRestarts_update_learning_rule_double counting_reset
       (CosineAnnealingWithWarmRestarts_init (fl (3 / 10)) (fl (9 / 10)) 10 1 1) fresh_rule 0 =
     Inr (4053239664633447 / 2 ^ 52,
          (CosineAnnealingWithWarmRestarts_init (fl (3 / 10)) (fl (9 / 10)) 10 1 1)\<lparr>tCur := 1\<rparr>,
          fresh_rule)
   \<and> fl (9 / 10) = 8106479329266893 / 2 ^ 53
   \<and> (4053239664633447 / 2 ^ 52 :: real) \<noteq> 8106479329266893 / 2 ^ 53"
proof -
  have d: "fl (fl (9 / 10) - fl (3 / 10)) = 1351079888211149 / 2 ^ 51"
    using fl_eval [of "- 1" "8106479329266893 / 2 ^ 53 - 5404319552844595 / 2 ^ 54"]
    by (simp add: double_0_3 double_0_9 rne_def)
  have half: "fl (1 / 2 * (1351079888211149 / 2 ^ 51)) = 1351079888211149 / 2 ^ 52"
    using fl_representable [of 1351079888211149 "- 52"] by simp
  have twice: "fl (1351079888211149 / 2 ^ 52 * 2) = 1351079888211149 / 2 ^ 51"
    using fl_representable [of 1351079888211149 "- 51"] by simp
  have h: "fl (fl (3 / 10) + 1351079888211149 / 2 ^ 51) = 4053239664633447 / 2 ^ 52"
    using fl_eval [of "- 1" "5404319552844595 / 2 ^ 54 + 1351079888211149 / 2 ^ 51"]
    by (simp add: double_0_3 rne_def)
  have rate: "fl (fl (3 / 10) + fl (fl (1 / 2 * fl (fl (9 / 10) - fl (3 / 10))) * 2))
      = 4053239664633447 / 2 ^ 52"
    by (simp only: d half twice h)
  have call: "CosineAnnealingWithWarmRestarts_update_learning_rule_double counting_reset
       (CosineAnnealingWithWarmRestarts_init (fl (3 / 10)) (fl (9 / 10)) 10 1 1) fresh_rule 0 =
     Inr (fl (fl (3 / 10) + fl (fl (1 / 2 * fl (fl (9 / 10) - fl (3 / 10))) * 2)),
          (CosineAnnealingWithWarmRestarts_init (fl (3 / 10)) (fl (9 / 10)) 10 1 1)\<lparr>tCur := 1\<rparr>,
          fresh_rule)"
    by (simp add: CosineAnnealingWithWarmRestarts_update_learning_rule_double_def
        CosineAnnealingWithWarmRestarts_init_def Let_def py_int_def cosine_rate_double_def)
  show ?thesis
    unfolding call rate by (simp add: double_0_9)
qed

text \<open>
  Claim C1, amended. On a scheduler that has just been constructed with a period other
  than zero, the call with epoch number 0 uses position \<open>0 mod period = 0\<close> and cycle count
  0, so the discount loop does not run, fires no restart because \<^verbatim>\<open>tNext\<close> is the period,
  and has the cosine factor \<open>1 + 1 = 2\<close>. It returns line 92 at these values in double
  arithmetic, \<open>min + (0.5 * (max - min)) * 2\<close> with a rounding after each operation, leaves
  the scheduler changed in \<^verbatim>\<open>tCur\<close> only and does not touch the learning rule. Unless the
  rounded difference is below \<open>2 ^ -1021\<close> in magnitude, halving and doubling are exact and
  the rate is the rounded sum of the minimum rate and the rounded difference. With a
  minimum rate of 0 and a maximum rate that is a double of magnitude at least
  \<open>2 ^ -1021\<close> the rate is the maximum rate itself.
\<close>

theorem first_call_epoch_0_rate:
  "total_iters_per_period \<noteq> 0 \<Longrightarrow>
   CosineAnnealingWithWarmRestarts_update_learning_rule_double reset
       (CosineAnnealingWithWarmRestarts_init min_rate max_rate total_iters_per_period
          discount_factor expansion_factor)
       learning_rule 0 =
     Inr (fl (min_rate + fl (fl (1 / 2 * fl (max_rate - min_rate)) * 2)),
          (CosineAnnealingWithWarmRestarts_init min_rate max_rate total_iters_per_period
             discount_factor expansion_factor)\<lparr>tCur := 1\<rparr>,
          learning_rule)
   \<and> (2 powi (- 1021) \<le> \<bar>fl (max_rate - min_rate)\<bar> \<longrightarrow>
        fl (min_rate + fl (fl (1 / 2 * fl (max_rate - min_rate)) * 2))
          = fl (min_rate + fl (max_rate - min_rate)))
   \<and> (min_rate = 0 \<and> fl max_rate = max_rate \<and> 2 powi (- 1021) \<le> \<bar>max_rate\<bar> \<longrightarrow>
        fl (min_rate + fl (fl (1 / 2 * fl (max_rate - min_rate)) * 2)) = max_rate)"
proof (intro conjI impI)
  assume "total_iters_per_period \<noteq> 0"
  then show "CosineAnnealingWithWarmRestarts_update_learning_rule_double reset
       (CosineAnnealingWithWarmRestarts_init min_rate max_rate total_iters_per_period
          discount_factor expansion_factor)
       learning_rule 0 =
     Inr (fl (min_rate + fl (fl (1 / 2 * fl (max_rate - min_rate)) * 2)),
          (CosineAnnealingWithWarmRestarts_init min_rate max_rate total_iters_per_period
             discount_factor expansion_factor)\<lparr>tCur := 1\<rparr>,
          learning_rule)"
    by (simp add: CosineAnnealingWithWarmRestarts_update_learning_rule_double_def
        CosineAnnealingWithWarmRestarts_init_def Let_def py_int_def cosine_rate_double_def)
next
  assume a: "2 powi (- 1021) \<le> \<bar>fl (max_rate - min_rate)\<bar>"
  have "fl (1 / 2 * fl (max_rate - min_rate)) = fl (max_rate - min_rate) / 2"
    using fl_half [OF a] by simp
  then show "fl (min_rate + fl (fl (1 / 2 * fl (max_rate - min_rate)) * 2))
          = fl (min_rate + fl (max_rate - min_rate))"
    by simp
next
  assume a: "min_rate = 0 \<and> fl max_rate = max_rate \<and> 2 powi (- 1021) \<le> \<bar>max_rate\<bar>"
  then have "fl (1 / 2 * max_rate) = max_rate / 2"
    using fl_half [of max_rate] by simp
  with a show "fl (min_rate + fl (fl (1 / 2 * fl (max_rate - min_rate)) * 2)) = max_rate"
    by simp
qed

theorem first_call_epoch_0_rate_witness:
  "(10::int) \<noteq> 0
   \<and> CosineAnnealingWithWarmRestarts_update_learning_rule_double counting_reset
       (CosineAnnealingWithWarmRestarts_init 0 1 10 (1 / 2) 2) fresh_rule 0 =
     Inr (1, (CosineAnnealingWithWarmRestarts_init 0 1 10 (1 / 2) 2)\<lparr>tCur := 1\<rparr>, fresh_rule)"
  using first_call_epoch_0_rate [of 10 counting_reset 0 1 "1 / 2" 2 fresh_rule]
  by simp

section \<open>The concrete scenarios\<close>

text \<open>
  Claim C2. The calls are made in order from epoch 0 on a fresh scheduler, with a learning
  rule that counts its resets. Without discount: the call for epoch 0 returns 1; after the
  calls for epochs 0 to 4 the call for epoch 5 returns 1/2; after the calls for epochs 0 to
  9, none of which resets the learning rule, the call for epoch 10 resets it once and
  returns 1. With discount factor 1/2: the call for epoch 10 resets the learning rule and
  returns 1/2; after the calls for epochs 0 to 19, with that one reset, the call for
  epoch 20 resets it a second time and returns 1/4.
\<close>

theorem concrete_scenarios:
  "CosineAnnealingWithWarmRestarts_update_learning_rule counting_reset scenario_plain lr 0 =
     Inr (1, scenario_plain\<lparr>tCur := 1\<rparr>, lr)
   \<and> run_epochs counting_reset scenario_plain lr [0..4] = Inr (scenario_plain\<lparr>tCur := 5\<rparr>, lr)
   \<and> CosineAnnealingWithWarmRestarts_update_learning_rule counting_reset
         (scenario_plain\<lparr>tCur := 5\<rparr>) lr 5 =
       Inr (1 / 2, scenario_plain\<lparr>tCur := 6\<rparr>, lr)
   \<and> run_epochs counting_reset scenario_plain lr [0..9] = Inr (scenario_plain\<lparr>tCur := 10\<rparr>, lr)
   \<and> CosineAnnealingWithWarmRestarts_update_learning_rule counting_reset
         (scenario_plain\<lparr>tCur := 10\<rparr>) lr 10 =
       Inr (1, scenario_plain\<lparr>tNext := 20, tCur := 1, t := 2\<rparr>, counting_reset lr)
   \<and> run_epochs counting_reset scenario_discount lr [0..9] =
       Inr (scenario_discount\<lparr>tCur := 10\<rparr>, lr)
   \<and> CosineAnnealingWithWarmRestarts_update_learning_rule counting_reset
         (scenario_discount\<lparr>tCur := 10\<rparr>) lr 10 =
       Inr (1 / 2, scenario_discount\<lparr>tNext := 20, tCur := 1, t := 2\<rparr>, counting_reset lr)
   \<and> run_epochs counting_reset scenario_discount lr [0..19] =
       Inr (scenario_discount\<lparr>tNext := 20, tCur := 10, t := 1\<rparr>, counting_reset lr)
   \<and> CosineAnnealingWithWarmRestarts_update_learning_rule counting_reset
         (scenario_discount\<lparr>tNext := 20, tCur := 10, t := 1\<rparr>) (counting_reset lr) 20 =
       Inr (1 / 4, scenario_discount\<lparr>tNext := 30, tCur := 1, t := 3\<rparr>,
            counting_reset (counting_reset lr))"
proof (intro conjI)
  note evals = update_learning_rule_eq CosineAnnealingWithWarmRestarts_init_def py_int_def
    cosine_rate_def discount_loop_power power2_eq_square
  show "CosineAnnealingWithWarmRestarts_update_learning_rule counting_reset scenario_plain lr 0 =
     Inr (1, scenario_plain\<lparr>tCur := 1\<rparr>, lr)"
    by (simp add: evals)
  show "run_epochs counting_reset scenario_plain lr [0..4] = Inr (scenario_plain\<lparr>tCur := 5\<rparr>, lr)"
    by (simp add: upto_rec1 evals)
  show "CosineAnnealingWithWarmRestarts_update_learning_rule counting_reset
         (scenario_plain\<lparr>tCur := 5\<rparr>) lr 5 =
       Inr (1 / 2, scenario_plain\<lparr>tCur := 6\<rparr>, lr)"
    by (simp add: evals)
  show "run_epochs counting_reset scenario_plain lr [0..9] = Inr (scenario_plain\<lparr>tCur := 10\<rparr>, lr)"
    by (simp add: upto_rec1 evals)
  show "CosineAnnealingWithWarmRestarts_update_learning_rule counting_reset
         (scenario_plain\<lparr>tCur := 10\<rparr>) lr 10 =
       Inr (1, scenario_plain\<lparr>tNext := 20, tCur := 1, t := 2\<rparr>, counting_reset lr)"
    by (simp add: evals)
  show "run_epochs counting_reset scenario_discount lr [0..9] =
       Inr (scenario_discount\<lparr>tCur := 10\<rparr>, lr)"
    by (simp add: upto_rec1 evals)
  show "CosineAnnealingWithWarmRestarts_update_learning_rule counting_reset
         (scenario_discount\<lparr>tCur := 10\<rparr>) lr 10 =
       Inr (1 / 2, scenario_discount\<lparr>tNext := 20, tCur := 1, t := 2\<rparr>, counting_reset lr)"
    by (simp add: evals)
  show "run_epochs counting_reset scenario_discount lr [0..19] =
       Inr (scenario_discount\<lparr>tNext := 20, tCur := 10, t := 1\<rparr>, counting_reset lr)"
    by (simp add: upto_rec1 evals)
  show "CosineAnnealingWithWarmRestarts_update_learning_rule counting_reset
         (scenario_discount\<lparr>tNext := 20, tCur := 10, t := 1\<rparr>) (counting_reset lr) 20 =
       Inr (1 / 4, scenario_discount\<lparr>tNext := 30, tCur := 1, t := 3\<rparr>,
            counting_reset (counting_reset lr))"
    by (simp add: evals)
qed

section \<open>Restarts\<close>



section \<open>The position in the cycle under period expansion\<close>

text \<open>
  Claim C4, evaluated with expansion factor 2 (minimum rate 0, maximum rate 1, period 10,
  discount factor 1) on the calls for epochs 0, 1, ..., 20 in order. After the calls for
  epochs 0 to 19 the learning rule has been reset once (at epoch 10), the next restart
  epoch is 30, and the call for epoch 19 has left \<^verbatim>\<open>tCur = 10\<close>, that is, it used position 9.
  The call for epoch 20 does not reset the learning rule and leaves \<^verbatim>\<open>tNext = 30\<close>, so no
  restart fires; yet it computes the rate at position \<open>20 mod 10 = 0\<close> and returns the
  maximum rate 1: the position is back at 0 between the restarts at epochs 10 and 30.
\<close>

theorem position_returns_to_0_without_restart:
  "run_epochs counting_reset (CosineAnnealingWithWarmRestarts_init 0 1 10 1 2) fresh_rule
     [0..19] =
     Inr ((CosineAnnealingWithWarmRestarts_init 0 1 10 1 2)
            \<lparr>tNext := 30, tPeriod := 20, tCur := 10, t := 1\<rparr>, counting_reset fresh_rule)
   \<and> CosineAnnealingWithWarmRestarts_update_learning_rule counting_reset
       ((CosineAnnealingWithWarmRestarts_init 0 1 10 1 2)
            \<lparr>tNext := 30, tPeriod := 20, tCur := 10, t := 1\<rparr>) (counting_reset fresh_rule) 20 =
     Inr (cosine_rate ((CosineAnnealingWithWarmRestarts_init 0 1 10 1 2)
            \<lparr>tNext := 30, tPeriod := 20, tCur := 0, t := 2\<rparr>) 1,
          (CosineAnnealingWithWarmRestarts_init 0 1 10 1 2)
            \<lparr>tNext := 30, tPeriod := 20, tCur := 1, t := 2\<rparr>, counting_reset fresh_rule)
   \<and> cosine_rate ((CosineAnnealingWithWarmRestarts_init 0 1 10 1 2)
            \<lparr>tNext := 30, tPeriod := 20, tCur := 0, t := 2\<rparr>) 1 = 1"
  by (simp add: upto_rec1 update_learning_rule_eq CosineAnnealingWithWarmRestarts_init_def
      py_int_def cosine_rate_def discount_loop_power counting_reset_def)

section \<open>The restart epochs and the period\<close>





section \<open>The rate within a period\<close>

text \<open>
  Line 92 in double arithmetic for a peak that is not below the minimum rate: of two
  positions between 0 and the period, the greater one gives a rate that is not greater.
  Every operation of the line is monotone and so is the rounding after it.
\<close>

lemma cosine_rate_double_antimono:
  assumes T: "0 < total_epochs_per_period self"
    and cfg: "hyperparameters self2 = hyperparameters self"
    and p1: "0 \<le> tCur self" and p12: "tCur self \<le> tCur self2"
    and p2: "tCur self2 \<le> total_epochs_per_period self"
    and peak: "min_learning_rate self \<le> peak"
  shows "cosine_rate_double self2 peak \<le> cosine_rate_double self peak"
proof -
  let ?T = "real_of_int (total_epochs_per_period self)"
  define q1 where "q1 = fl (real_of_int (tCur self) / ?T)"
  define q2 where "q2 = fl (real_of_int (tCur self2) / ?T)"
  define x1 where "x1 = fl (math_pi * q1)"
  define x2 where "x2 = fl (math_pi * q2)"
  define a where "a = fl (0.5 * fl (peak - min_learning_rate self))"
  from T have T': "0 < ?T" by simp
  have "0 \<le> real_of_int (tCur self) / ?T" using p1 T' by simp
  then have q1: "0 \<le> q1" unfolding q1_def by (rule fl_nonneg)
  have "real_of_int (tCur self) / ?T \<le> real_of_int (tCur self2) / ?T"
    using p12 T' by (simp add: divide_right_mono)
  then have q12: "q1 \<le> q2" unfolding q1_def q2_def by (rule fl_mono)
  have "real_of_int (tCur self2) / ?T \<le> 1" using p2 T' by simp
  then have "q2 \<le> fl 1" unfolding q2_def by (rule fl_mono)
  then have q2: "q2 \<le> 1" by simp
  have pi0: "0 \<le> math_pi" using math_pi_bounds(1) by simp
  have "0 \<le> math_pi * q1" using pi0 q1 by simp
  then have x1: "0 \<le> x1" unfolding x1_def by (rule fl_nonneg)
  have "math_pi * q1 \<le> math_pi * q2" using pi0 q12 by (rule mult_left_mono [rotated])
  then have x12: "x1 \<le> x2" unfolding x1_def x2_def by (rule fl_mono)
  have "math_pi * q2 \<le> math_pi * 1" using pi0 q2 by (rule mult_left_mono [rotated])
  then have "x2 \<le> fl (math_pi * 1)" unfolding x2_def by (rule fl_mono)
  then have x2: "x2 \<le> math_pi" by (simp add: math_pi_def)
  have "math_cos x2 \<le> math_cos x1" using x1 x12 x2 by (rule math_cos_antimono)
  then have "1 + math_cos x2 \<le> 1 + math_cos x1" by simp
  then have b: "fl (1 + math_cos x2) \<le> fl (1 + math_cos x1)" by (rule fl_mono)
  have "0 \<le> fl (peak - min_learning_rate self)" using peak by (intro fl_nonneg) simp
  then have "0 \<le> 0.5 * fl (peak - min_learning_rate self)" by simp
  then have a: "0 \<le> a" unfolding a_def by (rule fl_nonneg)
  have "a * fl (1 + math_cos x2) \<le> a * fl (1 + math_cos x1)"
    using b a by (rule mult_left_mono)
  then have "fl (a * fl (1 + math_cos x2)) \<le> fl (a * fl (1 + math_cos x1))" by (rule fl_mono)
  then have "min_learning_rate self + fl (a * fl (1 + math_cos x2))
      \<le> min_learning_rate self + fl (a * fl (1 + math_cos x1))"
    by simp
  then have "fl (min_learning_rate self + fl (a * fl (1 + math_cos x2)))
      \<le> fl (min_learning_rate self + fl (a * fl (1 + math_cos x1)))"
    by (rule fl_mono)
  moreover from cfg have "min_learning_rate self2 = min_learning_rate self"
    "total_epochs_per_period self2 = total_epochs_per_period self"
    by (simp_all add: hyperparameters_def)
  ultimately show ?thesis
    by (simp add: cosine_rate_double_def a_def x1_def x2_def q1_def q2_def)
qed

text \<open>
  The first configuration: after the calls for epochs 0 to 20, with restarts at epochs 10
  and 20, the calls for epochs 21 and 22 compute the peak \<open>0.1 * 0.1 * 0.1\<close>, which in
  doubles is one unit in the last place above the minimum rate 0.001. Half of that
  difference times a cosine factor between 3/2 and 2 lies between 3/4 and 1 of the unit,
  and the sum rounds to the peak at both positions.
\<close>

lemma cos_ge_half:
  fixes x :: real
  assumes "0 \<le> x" and "x \<le> 1"
  shows "1 / 2 \<le> cos x"
proof -
  have "cos x = cos (2 * (x / 2))" by simp
  also have "\<dots> = 1 - 2 * (sin (x / 2))\<^sup>2" by (rule cos_double_sin)
  finally have c: "cos x = 1 - 2 * (sin (x / 2))\<^sup>2" .
  have "\<bar>sin (x / 2)\<bar> \<le> \<bar>x / 2\<bar>" by (rule abs_sin_x_le_abs_x)
  with assms have "\<bar>sin (x / 2)\<bar> \<le> 1 / 2" by simp
  then have "(sin (x / 2))\<^sup>2 \<le> (1 / 2)\<^sup>2"
    by (metis abs_ge_zero power2_abs power_mono)
  then show ?thesis unfolding c by (simp add: power2_eq_square)
qed

lemma math_cos_ge_half:
  assumes "0 \<le> x" and "x \<le> 1"
  shows "1 / 2 \<le> math_cos x"
proof -
  have "fl (1 / 2) \<le> fl (cos x)" using assms by (intro fl_mono cos_ge_half)
  moreover have "fl (1 / 2) = 1 / 2" using fl_representable [of 1 "- 1"] by simp
  ultimately show ?thesis by (simp add: math_cos_def)
qed

lemma double_0_1: "fl (1 / 10) = 3602879701896397 / 2 ^ 55"
  using fl_eval [of "- 4" "1 / 10"] by (simp add: rne_def)

lemma double_0_001: "fl (1 / 1000) = 1152921504606847 / 2 ^ 60"
  using fl_eval [of "- 10" "1 / 1000"] by (simp add: rne_def)

lemma tie_peak:
  "discount_loop_double 2 (fl (1 / 10)) (fl (1 / 10)) = 4611686018427389 / 2 ^ 62"
proof -
  have "fl (3602879701896397 / 2 ^ 55 * (3602879701896397 / 2 ^ 55)) = 1441151880758559 / 2 ^ 57"
    using fl_eval [of "- 7" "3602879701896397 / 2 ^ 55 * (3602879701896397 / 2 ^ 55)"]
    by (simp add: rne_def)
  moreover have "fl (1441151880758559 / 2 ^ 57 * (3602879701896397 / 2 ^ 55))
      = 4611686018427389 / 2 ^ 62"
    using fl_eval [of "- 10" "1441151880758559 / 2 ^ 57 * (3602879701896397 / 2 ^ 55)"]
    by (simp add: rne_def)
  ultimately show ?thesis
    by (simp only: numeral_2_eq_2 discount_loop_double.simps double_0_1)
qed

lemma cycle_2: "py_int (fl (21 / 10)) = 2" "py_int (fl (11 / 5)) = 2"
  using py_int_fl_between [of 2 "21 / 10" "5 / 2"] py_int_fl_between [of 2 "11 / 5" "5 / 2"]
  by (simp_all add: fl_small_numerals)

lemma position_1_2:
  "0 \<le> fl (1 / 10)" "fl (1 / 10) \<le> 1 / 4" "0 \<le> fl (2 / 10)" "fl (2 / 10) \<le> 1 / 4"
proof -
  show "0 \<le> fl (1 / 10)" "0 \<le> fl (2 / 10)" by (simp_all add: fl_nonneg)
  have "fl (1 / 10) \<le> fl (1 / 4)" by (intro fl_mono) simp
  then show "fl (1 / 10) \<le> 1 / 4" by (simp only: fl_small_numerals)
  have "fl (2 / 10) \<le> fl (1 / 4)" by (intro fl_mono) simp
  then show "fl (2 / 10) \<le> 1 / 4" by (simp only: fl_small_numerals)
qed

lemma cosine_factor_bounds:
  assumes "0 \<le> q" and "q \<le> 1 / 4"
  shows "3 / 2 \<le> fl (1 + math_cos (fl (math_pi * q)))"
    and "fl (1 + math_cos (fl (math_pi * q))) \<le> 2"
proof -
  have "0 \<le> math_pi * q" using assms math_pi_bounds(1) by simp
  then have x0: "0 \<le> fl (math_pi * q)" by (rule fl_nonneg)
  have "math_pi * q \<le> 4 * (1 / 4)"
    using assms math_pi_bounds by (intro mult_mono) simp_all
  then have "fl (math_pi * q) \<le> fl 1" by (intro fl_mono) simp
  then have x1: "fl (math_pi * q) \<le> 1" by simp
  have "3 / 2 \<le> 1 + math_cos (fl (math_pi * q))"
    using math_cos_ge_half [OF x0 x1] by simp
  then have "fl (3 / 2) \<le> fl (1 + math_cos (fl (math_pi * q)))" by (rule fl_mono)
  then show "3 / 2 \<le> fl (1 + math_cos (fl (math_pi * q)))"
    by (simp add: fl_small_numerals)
  have "1 + math_cos (fl (math_pi * q)) \<le> 2"
    using math_cos_bounds(2) [of "fl (math_pi * q)"] by simp
  then have "fl (1 + math_cos (fl (math_pi * q))) \<le> fl 2" by (rule fl_mono)
  then show "fl (1 + math_cos (fl (math_pi * q))) \<le> 2" by simp
qed

lemma tie_rate:
  assumes "3 / 2 \<le> b" and "b \<le> 2"
  shows "fl (fl (1 / 1000)
             + fl (fl (0.5 * fl (4611686018427389 / 2 ^ 62 - fl (1 / 1000))) * b))
         = 4611686018427389 / 2 ^ 62"
proof -
  have d: "fl (4611686018427389 / 2 ^ 62 - 1152921504606847 / 2 ^ 60) = 1 / 2 ^ 62"
    using fl_representable [of 1 "- 62"] by simp
  have a: "fl (0.5 * (1 / 2 ^ 62)) = 1 / 2 ^ 63"
    using fl_representable [of 1 "- 63"] by simp
  have "fl (3 / 2 ^ 64) \<le> fl (1 / 2 ^ 63 * b)" using assms by (intro fl_mono) simp
  moreover have "fl (3 / 2 ^ 64) = 3 / 2 ^ 64" using fl_representable [of 3 "- 64"] by simp
  moreover have "fl (1 / 2 ^ 63 * b) \<le> fl (1 / 2 ^ 62)" using assms by (intro fl_mono) simp
  moreover have "fl (1 / 2 ^ 62) = 1 / 2 ^ 62" using fl_representable [of 1 "- 62"] by simp
  ultimately have y: "3 / 2 ^ 64 \<le> fl (1 / 2 ^ 63 * b)" "fl (1 / 2 ^ 63 * b) \<le> 1 / 2 ^ 62"
    by simp_all
  have lo: "fl (1152921504606847 / 2 ^ 60 + 3 / 2 ^ 64) = 4611686018427389 / 2 ^ 62"
    using fl_eval [of "- 10" "1152921504606847 / 2 ^ 60 + 3 / 2 ^ 64"] by (simp add: rne_def)
  have hi: "fl (1152921504606847 / 2 ^ 60 + 1 / 2 ^ 62) = 4611686018427389 / 2 ^ 62"
    using fl_representable [of 4611686018427389 "- 62"] by simp
  have "fl (1152921504606847 / 2 ^ 60 + 3 / 2 ^ 64)
          \<le> fl (1152921504606847 / 2 ^ 60 + fl (1 / 2 ^ 63 * b))"
    using y(1) by (intro fl_mono) simp
  moreover have "fl (1152921504606847 / 2 ^ 60 + fl (1 / 2 ^ 63 * b))
          \<le> fl (1152921504606847 / 2 ^ 60 + 1 / 2 ^ 62)"
    using y(2) by (intro fl_mono) simp
  ultimately have "fl (1152921504606847 / 2 ^ 60 + fl (1 / 2 ^ 63 * b))
      = 4611686018427389 / 2 ^ 62"
    unfolding lo hi by (rule antisym [rotated])
  then show ?thesis by (simp only: d a double_0_001)
qed

lemma tie_run:
  "run_epochs_double counting_reset scenario_tie fresh_rule [0..20] =
     Inr (scenario_tie\<lparr>tNext := 30, tCur := 1, t := 3\<rparr>,
          counting_reset (counting_reset fresh_rule))"
  by (simp add: upto_rec1 update_learning_rule_double_eq CosineAnnealingWithWarmRestarts_init_def
      fl_small_numerals py_int_def)

lemma tie_21:
  "CosineAnnealingWithWarmRestarts_update_learning_rule_double counting_reset
       (scenario_tie\<lparr>tNext := 30, tCur := 1, t := 3\<rparr>) lr 21 =
     Inr (4611686018427389 / 2 ^ 62, scenario_tie\<lparr>tNext := 30, tCur := 2, t := 2\<rparr>, lr)"
proof -
  have "cosine_rate_double (scenario_tie\<lparr>tNext := 30, tCur := 1, t := 3\<rparr>)
          (4611686018427389 / 2 ^ 62) = 4611686018427389 / 2 ^ 62"
    unfolding cosine_rate_double_def
    using tie_rate [OF cosine_factor_bounds [OF position_1_2(1,2)]]
    by (simp add: CosineAnnealingWithWarmRestarts_init_def)
  then show ?thesis
    by (simp add: update_learning_rule_double_eq CosineAnnealingWithWarmRestarts_init_def
        cycle_2 tie_peak)
qed

lemma tie_22:
  "CosineAnnealingWithWarmRestarts_update_learning_rule_double counting_reset
       (scenario_tie\<lparr>tNext := 30, tCur := 2, t := 2\<rparr>) lr 22 =
     Inr (4611686018427389 / 2 ^ 62, scenario_tie\<lparr>tNext := 30, tCur := 3, t := 2\<rparr>, lr)"
proof -
  have "cosine_rate_double (scenario_tie\<lparr>tNext := 30, tCur := 2, t := 2\<rparr>)
          (4611686018427389 / 2 ^ 62) = 4611686018427389 / 2 ^ 62"
    unfolding cosine_rate_double_def
    using tie_rate [OF cosine_factor_bounds [OF position_1_2(3,4)]]
    by (simp add: CosineAnnealingWithWarmRestarts_init_def)
  then show ?thesis
    by (simp add: update_learning_rule_double_eq CosineAnnealingWithWarmRestarts_init_def
        cycle_2 tie_peak)
qed

text \<open>
  The second configuration: in the cycle of epochs 21 to 29 the discounted peak is 1/4,
  below the minimum rate 1/2. The rate at position 1 is at most 17/64 and the rate at
  position 9 is at least 5/16.
\<close>

lemma math_cos_le_half:
  assumes "7 / 4 \<le> x" and "x \<le> math_pi"
  shows "math_cos x \<le> 1 / 2"
proof (cases "x \<le> pi")
  case True
  have "pi / 3 \<le> x" using assms(1) pi_less_4 by simp
  with True have "cos x \<le> cos (pi / 3)" by (intro cos_monotone_0_pi_le) simp_all
  then have "fl (cos x) \<le> fl (1 / 2)" unfolding cos_60 by (rule fl_mono)
  then show ?thesis by (simp add: math_cos_def fl_small_numerals)
next
  case False
  then have "math_cos x \<le> - 1" using assms(2) by (intro math_cos_beyond_pi) simp_all
  then show ?thesis by simp
qed

lemma cycle_28_29: "py_int (fl (14 / 5)) = 2" "py_int (fl (29 / 10)) = 2"
proof -
  have "fl (47 / 16) = 47 / 16" using fl_representable [of 47 "- 4"] by simp
  then show "py_int (fl (14 / 5)) = 2" "py_int (fl (29 / 10)) = 2"
    using py_int_fl_between [of 2 "14 / 5" "47 / 16"] py_int_fl_between [of 2 "29 / 10" "47 / 16"]
    by simp_all
qed

lemma below_peak: "discount_loop_double 2 1 (1 / 2) = 1 / 4"
  by (simp add: numeral_2_eq_2 fl_small_numerals)

lemma below_run_20:
  "run_epochs_double counting_reset scenario_below fresh_rule [0..20] =
     Inr (scenario_below\<lparr>tNext := 30, tCur := 1, t := 3\<rparr>,
          counting_reset (counting_reset fresh_rule))"
  by (simp add: upto_rec1 update_learning_rule_double_eq CosineAnnealingWithWarmRestarts_init_def
      fl_small_numerals py_int_def)

lemma below_run_28:
  "run_epochs_double counting_reset scenario_below fresh_rule [0..28] =
     Inr (scenario_below\<lparr>tNext := 30, tCur := 9, t := 2\<rparr>,
          counting_reset (counting_reset fresh_rule))"
  by (simp add: upto_rec1 update_learning_rule_double_eq CosineAnnealingWithWarmRestarts_init_def
      fl_small_numerals cycle_28_29)

lemma below_21:
  "CosineAnnealingWithWarmRestarts_update_learning_rule_double counting_reset
       (scenario_below\<lparr>tNext := 30, tCur := 1, t := 3\<rparr>) lr 21 =
     Inr (cosine_rate_double (scenario_below\<lparr>tNext := 30, tCur := 1, t := 3\<rparr>) (1 / 4),
          scenario_below\<lparr>tNext := 30, tCur := 2, t := 2\<rparr>, lr)"
  by (simp add: update_learning_rule_double_eq CosineAnnealingWithWarmRestarts_init_def
      cycle_2 below_peak)

lemma below_29:
  "CosineAnnealingWithWarmRestarts_update_learning_rule_double counting_reset
       (scenario_below\<lparr>tNext := 30, tCur := 9, t := 2\<rparr>) lr 29 =
     Inr (cosine_rate_double (scenario_below\<lparr>tNext := 30, tCur := 9, t := 2\<rparr>) (1 / 4),
          scenario_below\<lparr>tNext := 30, tCur := 10, t := 2\<rparr>, lr)"
  by (simp add: update_learning_rule_double_eq CosineAnnealingWithWarmRestarts_init_def
      cycle_28_29 below_peak)

lemma cos_ge_7_8:
  fixes x :: real
  assumes "0 \<le> x" and "x \<le> 1 / 2"
  shows "7 / 8 \<le> cos x"
proof -
  have "cos x = cos (2 * (x / 2))" by simp
  also have "\<dots> = 1 - 2 * (sin (x / 2))\<^sup>2" by (rule cos_double_sin)
  finally have c: "cos x = 1 - 2 * (sin (x / 2))\<^sup>2" .
  have "\<bar>sin (x / 2)\<bar> \<le> \<bar>x / 2\<bar>" by (rule abs_sin_x_le_abs_x)
  with assms have "\<bar>sin (x / 2)\<bar> \<le> 1 / 4" by simp
  then have "(sin (x / 2))\<^sup>2 \<le> (1 / 4)\<^sup>2"
    by (metis abs_ge_zero power2_abs power_mono)
  then show ?thesis unfolding c by (simp add: power2_eq_square)
qed

lemma below_rate_21:
  "cosine_rate_double (scenario_below\<lparr>tNext := 30, tCur := 1, t := 3\<rparr>) (1 / 4) \<le> 17 / 64"
proof -
  define x where "x = fl (math_pi * fl (1 / 10))"
  define b where "b = fl (1 + math_cos x)"
  have "fl (1 / 10) \<le> fl (1 / 8)" by (intro fl_mono) simp
  moreover have "fl (1 / 8) = 1 / 8" using fl_representable [of 1 "- 3"] by simp
  ultimately have q: "fl (1 / 10) \<le> 1 / 8" by simp
  have q0: "0 \<le> fl (1 / 10)" by (simp add: fl_nonneg)
  have "0 \<le> math_pi * fl (1 / 10)" using q0 math_pi_bounds(1) by simp
  then have x0: "0 \<le> x" unfolding x_def by (rule fl_nonneg)
  have "math_pi * fl (1 / 10) \<le> 4 * (1 / 8)"
    using q q0 math_pi_bounds by (intro mult_mono) simp_all
  then have "x \<le> fl (4 * (1 / 8))" unfolding x_def by (rule fl_mono)
  then have x1: "x \<le> 1 / 2" by (simp add: fl_small_numerals)
  have "fl (7 / 8) \<le> fl (cos x)" using x0 x1 by (intro fl_mono cos_ge_7_8)
  moreover have "fl (7 / 8) = 7 / 8" using fl_representable [of 7 "- 3"] by simp
  ultimately have "1 + 7 / 8 \<le> 1 + math_cos x" by (simp add: math_cos_def)
  then have "fl (1 + 7 / 8) \<le> b" unfolding b_def by (rule fl_mono)
  moreover have "fl (1 + 7 / 8) = 15 / 8" using fl_representable [of 15 "- 3"] by simp
  ultimately have b: "15 / 8 \<le> b" by simp
  have "- (1 / 8) * b \<le> - (15 / 64)" using b by simp
  then have "fl (- (1 / 8) * b) \<le> fl (- (15 / 64))" by (rule fl_mono)
  moreover have "fl (- (15 / 64)) = - (15 / 64)" using fl_representable [of "- 15" "- 6"] by simp
  ultimately have "1 / 2 + fl (- (1 / 8) * b) \<le> 1 / 2 + - (15 / 64)" by simp
  then have "fl (1 / 2 + fl (- (1 / 8) * b)) \<le> fl (1 / 2 + - (15 / 64))" by (rule fl_mono)
  moreover have "fl (1 / 2 + - (15 / 64)) = 17 / 64" using fl_representable [of 17 "- 6"] by simp
  ultimately have r: "fl (1 / 2 + fl (- (1 / 8) * b)) \<le> 17 / 64" by simp
  have "fl (- (1 / 4)) = - (1 / 4)" "fl (- (1 / 8)) = - (1 / 8)"
    using fl_representable [of "- 1" "- 2"] fl_representable [of "- 1" "- 3"] by simp_all
  then have "cosine_rate_double
        (scenario_below\<lparr>tNext := 30, tCur := 1, t := 3\<rparr>) (1 / 4)
      = fl (1 / 2 + fl (- (1 / 8) * b))"
    by (simp add: cosine_rate_double_def CosineAnnealingWithWarmRestarts_init_def b_def x_def)
  with r show ?thesis by simp
qed

lemma below_rate_29:
  "5 / 16 \<le> cosine_rate_double (scenario_below\<lparr>tNext := 30, tCur := 9, t := 2\<rparr>) (1 / 4)"
proof -
  define x where "x = fl (math_pi * fl (9 / 10))"
  define b where "b = fl (1 + math_cos x)"
  have "fl (7 / 8) \<le> fl (9 / 10)" by (intro fl_mono) simp
  moreover have "fl (7 / 8) = 7 / 8" using fl_representable [of 7 "- 3"] by simp
  ultimately have q: "7 / 8 \<le> fl (9 / 10)" by simp
  have "fl (9 / 10) \<le> fl 1" by (intro fl_mono) simp
  then have q1: "fl (9 / 10) \<le> 1" by simp
  have "2 * (7 / 8) \<le> math_pi * fl (9 / 10)"
    using q math_pi_bounds(1) by (intro mult_mono) simp_all
  then have "fl (2 * (7 / 8)) \<le> x" unfolding x_def by (rule fl_mono)
  moreover have "fl (2 * (7 / 8)) = 7 / 4" using fl_representable [of 7 "- 2"] by simp
  ultimately have x1: "7 / 4 \<le> x" by simp
  have "math_pi * fl (9 / 10) \<le> math_pi * 1"
    using q1 math_pi_bounds(1) by (intro mult_left_mono) simp_all
  then have "x \<le> fl (math_pi * 1)" unfolding x_def by (rule fl_mono)
  then have x2: "x \<le> math_pi" by (simp add: math_pi_def)
  have "1 + math_cos x \<le> 3 / 2" using math_cos_le_half [OF x1 x2] by simp
  then have "b \<le> fl (3 / 2)" unfolding b_def by (rule fl_mono)
  then have b: "b \<le> 3 / 2" by (simp add: fl_small_numerals)
  have "- (3 / 16) \<le> - (1 / 8) * b" using b by simp
  then have "fl (- (3 / 16)) \<le> fl (- (1 / 8) * b)" by (rule fl_mono)
  moreover have "fl (- (3 / 16)) = - (3 / 16)" using fl_representable [of "- 3" "- 4"] by simp
  ultimately have "1 / 2 + - (3 / 16) \<le> 1 / 2 + fl (- (1 / 8) * b)" by simp
  then have "fl (1 / 2 + - (3 / 16)) \<le> fl (1 / 2 + fl (- (1 / 8) * b))" by (rule fl_mono)
  moreover have "fl (1 / 2 + - (3 / 16)) = 5 / 16" using fl_representable [of 5 "- 4"] by simp
  ultimately have r: "5 / 16 \<le> fl (1 / 2 + fl (- (1 / 8) * b))" by simp
  have "fl (- (1 / 4)) = - (1 / 4)" "fl (- (1 / 8)) = - (1 / 8)"
    using fl_representable [of "- 1" "- 2"] fl_representable [of "- 1" "- 3"] by simp_all
  then have "cosine_rate_double
        (scenario_below\<lparr>tNext := 30, tCur := 9, t := 2\<rparr>) (1 / 4)
      = fl (1 / 2 + fl (- (1 / 8) * b))"
    by (simp add: cosine_rate_double_def CosineAnnealingWithWarmRestarts_init_def b_def x_def)
  with r show ?thesis by simp
qed

text \<open>
  Against claim C6 as stated, twice. With minimum rate 0.001, maximum rate 0.1, discount
  factor 0.1, period 10 and expansion factor 1, the maximum rate is above the minimum rate,
  and so is the discounted peak of the third cycle; the calls for epochs 0 to 20 end with
  the restart at epoch 20 and set the next one to epoch 30, and the calls for epochs 21 and
  22, at positions 1 and 2 with no restart, return the same rate
  \<open>4611686018427389 / 2 ^ 62\<close>, printed 0.0010000000000000002. With minimum rate 1/2,
  maximum rate 1 and discount factor 1/2, where the discounted peak of the third cycle is
  below the minimum rate, the call for epoch 29, at position 9, returns a greater rate than
  the call for epoch 21, at position 1.
\<close>

theorem rate_not_strictly_decreasing_counterexample:
  "run_epochs_double counting_reset scenario_tie fresh_rule [0..20] =
     Inr (scenario_tie\<lparr>tNext := 30, tCur := 1, t := 3\<rparr>,
          counting_reset (counting_reset fresh_rule))
   \<and> CosineAnnealingWithWarmRestarts_update_learning_rule_double counting_reset
       (scenario_tie\<lparr>tNext := 30, tCur := 1, t := 3\<rparr>)
       (counting_reset (counting_reset fresh_rule)) 21 =
     Inr (4611686018427389 / 2 ^ 62, scenario_tie\<lparr>tNext := 30, tCur := 2, t := 2\<rparr>,
          counting_reset (counting_reset fresh_rule))
   \<and> CosineAnnealingWithWarmRestarts_update_learning_rule_double counting_reset
       (scenario_tie\<lparr>tNext := 30, tCur := 2, t := 2\<rparr>)
       (counting_reset (counting_reset fresh_rule)) 22 =
     Inr (4611686018427389 / 2 ^ 62, scenario_tie\<lparr>tNext := 30, tCur := 3, t := 2\<rparr>,
          counting_reset (counting_reset fresh_rule))
   \<and> min_learning_rate scenario_tie < max_learning_rate scenario_tie
   \<and> min_learning_rate scenario_tie
       < discount_loop_double 2 (max_learning_rate scenario_tie)
           (max_learning_rate_discount_factor scenario_tie)
   \<and> run_epochs_double counting_reset scenario_below fresh_rule [0..20] =
       Inr (scenario_below\<lparr>tNext := 30, tCur := 1, t := 3\<rparr>,
            counting_reset (counting_reset fresh_rule))
   \<and> CosineAnnealingWithWarmRestarts_update_learning_rule_double counting_reset
       (scenario_below\<lparr>tNext := 30, tCur := 1, t := 3\<rparr>)
       (counting_reset (counting_reset fresh_rule)) 21 =
     Inr (cosine_rate_double (scenario_below\<lparr>tNext := 30, tCur := 1, t := 3\<rparr>) (1 / 4),
          scenario_below\<lparr>tNext := 30, tCur := 2, t := 2\<rparr>,
          counting_reset (counting_reset fresh_rule))
   \<and> run_epochs_double counting_reset scenario_below fresh_rule [0..28] =
       Inr (scenario_below\<lparr>tNext := 30, tCur := 9, t := 2\<rparr>,
            counting_reset (counting_reset fresh_rule))
   \<and> CosineAnnealingWithWarmRestarts_update_learning_rule_double counting_reset
       (scenario_below\<lparr>tNext := 30, tCur := 9, t := 2\<rparr>)
       (counting_reset (counting_reset fresh_rule)) 29 =
     Inr (cosine_rate_double (scenario_below\<lparr>tNext := 30, tCur := 9, t := 2\<rparr>) (1 / 4),
          scenario_below\<lparr>tNext := 30, tCur := 10, t := 2\<rparr>,
          counting_reset (counting_reset fresh_rule))
   \<and> cosine_rate_double (scenario_below\<lparr>tNext := 30, tCur := 1, t := 3\<rparr>) (1 / 4)
       < cosine_rate_double (scenario_below\<lparr>tNext := 30, tCur := 9, t := 2\<rparr>) (1 / 4)
   \<and> min_learning_rate scenario_below < max_learning_rate scenario_below"
proof (intro conjI)
  show "min_learning_rate scenario_tie < max_learning_rate scenario_tie"
    by (simp add: CosineAnnealingWithWarmRestarts_init_def double_0_1 double_0_001)
  show "min_learning_rate scenario_tie
       < discount_loop_double 2 (max_learning_rate scenario_tie)
           (max_learning_rate_discount_factor scenario_tie)"
    by (simp add: CosineAnnealingWithWarmRestarts_init_def tie_peak double_0_001)
  have "cosine_rate_double (scenario_below\<lparr>tNext := 30, tCur := 1, t := 3\<rparr>) (1 / 4) \<le> 17 / 64"
    by (rule below_rate_21)
  moreover have "5 / 16
      \<le> cosine_rate_double (scenario_below\<lparr>tNext := 30, tCur := 9, t := 2\<rparr>) (1 / 4)"
    by (rule below_rate_29)
  ultimately show "cosine_rate_double (scenario_below\<lparr>tNext := 30, tCur := 1, t := 3\<rparr>) (1 / 4)
       < cosine_rate_double (scenario_below\<lparr>tNext := 30, tCur := 9, t := 2\<rparr>) (1 / 4)"
    by linarith
  show "min_learning_rate scenario_below < max_learning_rate scenario_below"
    by (simp add: CosineAnnealingWithWarmRestarts_init_def)
qed (rule tie_run tie_21 tie_22 below_run_20 below_run_28 below_21 below_29)+

text \<open>
  Claim C6, amended. Take two calls on schedulers with the same hyperparameters and a
  positive period, for epoch numbers to which line 75 gives the same cycle count, on
  neither of which a restart fires. If the minimum rate is not above the effective maximum
  rate that the discount loop computes for that cycle count, then the call at the greater
  position \<open>e mod period\<close> returns a rate that is not greater. It need not be smaller.
\<close>

theorem rate_not_increasing_within_period:
  assumes "0 < total_epochs_per_period self"
    and "hyperparameters self2 = hyperparameters self"
    and "py_int (fl (real_of_int e1 / real_of_int (total_epochs_per_period self)))
           = py_int (fl (real_of_int e2 / real_of_int (total_epochs_per_period self)))"
    and "e1 mod total_epochs_per_period self \<le> e2 mod total_epochs_per_period self"
    and "real_of_int e1 \<noteq> tNext self" and "real_of_int e2 \<noteq> tNext self2"
    and "min_learning_rate self
           \<le> discount_loop_double
                (nat (py_int (fl (real_of_int e1 / real_of_int (total_epochs_per_period self)))))
                (max_learning_rate self) (max_learning_rate_discount_factor self)"
  shows "\<exists>h1 self' h2 self2'.
           CosineAnnealingWithWarmRestarts_update_learning_rule_double reset self learning_rule e1
             = Inr (h1, self', learning_rule)
           \<and> CosineAnnealingWithWarmRestarts_update_learning_rule_double reset self2
                 learning_rule2 e2
             = Inr (h2, self2', learning_rule2)
           \<and> h2 \<le> h1"
proof -
  let ?T = "total_epochs_per_period self"
  let ?peak = "discount_loop_double (nat (py_int (fl (real_of_int e1 / real_of_int ?T))))
                (max_learning_rate self) (max_learning_rate_discount_factor self)"
  from assms(2) have cfg: "total_epochs_per_period self2 = ?T"
    "max_learning_rate self2 = max_learning_rate self"
    "max_learning_rate_discount_factor self2 = max_learning_rate_discount_factor self"
    by (simp_all add: hyperparameters_def)
  have u1: "\<exists>self'. CosineAnnealingWithWarmRestarts_update_learning_rule_double reset self
        learning_rule e1
      = Inr (cosine_rate_double (self\<lparr>tCur := e1 mod ?T\<rparr>) ?peak, self', learning_rule)"
    using assms(1,5) by (simp add: update_learning_rule_double_eq)
  have u2: "\<exists>self2'. CosineAnnealingWithWarmRestarts_update_learning_rule_double reset self2
        learning_rule2 e2
      = Inr (cosine_rate_double (self2\<lparr>tCur := e2 mod ?T\<rparr>) ?peak, self2', learning_rule2)"
    using assms(1,6) cfg by (simp add: update_learning_rule_double_eq assms(3))
  have "cosine_rate_double (self2\<lparr>tCur := e2 mod ?T\<rparr>) ?peak
          \<le> cosine_rate_double (self\<lparr>tCur := e1 mod ?T\<rparr>) ?peak"
  proof (rule cosine_rate_double_antimono)
    show "hyperparameters (self2\<lparr>tCur := e2 mod ?T\<rparr>)
            = hyperparameters (self\<lparr>tCur := e1 mod ?T\<rparr>)"
      using assms(2) by (simp add: hyperparameters_def)
    show "tCur (self2\<lparr>tCur := e2 mod ?T\<rparr>) \<le> total_epochs_per_period (self\<lparr>tCur := e1 mod ?T\<rparr>)"
    proof -
      from assms(1) have "e2 mod ?T < ?T" by (rule pos_mod_bound)
      then show ?thesis by simp
    qed
  qed (use assms in simp_all)
  with u1 u2 show ?thesis by auto
qed

lemma cycle_1: "py_int (fl (11 / 10)) = 1" "py_int (fl (6 / 5)) = 1"
  using py_int_fl_between [of 1 "11 / 10" "3 / 2"] py_int_fl_between [of 1 "6 / 5" "3 / 2"]
  by (simp_all add: fl_small_numerals)

theorem rate_not_increasing_witness:
  "\<exists>h1 self' h2 self2'.
     CosineAnnealingWithWarmRestarts_update_learning_rule_double counting_reset
        (scenario_discount\<lparr>tNext := 20, tCur := 1, t := 2\<rparr>) fresh_rule 11
       = Inr (h1, self', fresh_rule)
     \<and> CosineAnnealingWithWarmRestarts_update_learning_rule_double counting_reset
        (scenario_discount\<lparr>tNext := 20, tCur := 2, t := 1\<rparr>) fresh_rule 12
       = Inr (h2, self2', fresh_rule)
     \<and> h2 \<le> h1"
  using rate_not_increasing_within_period
    [of "scenario_discount\<lparr>tNext := 20, tCur := 1, t := 2\<rparr>"
        "scenario_discount\<lparr>tNext := 20, tCur := 2, t := 1\<rparr>" 11 12
        counting_reset fresh_rule fresh_rule]
  by (auto simp: CosineAnnealingWithWarmRestarts_init_def hyperparameters_def cycle_1
      fl_small_numerals)

section \<open>The constant scheduler\<close>

text \<open>
  Against claim C7 as stated: the scheduler built with rate 1/100, called with a learning
  rule whose rate is 1/2 and epoch number -3, returns \<^verbatim>\<open>None\<close>, not the rate, and has changed
  the learning rule, whose rate is now 1/100.
\<close>

theorem constant_scheduler_counterexample:
  "ConstantLearningRateScheduler_update_learning_rule
     (ConstantLearningRateScheduler_init (1 / 100)) \<lparr>learning_rule.learning_rate = 1 / 2\<rparr> (- 3) =
   (None, ConstantLearningRateScheduler_init (1 / 100), \<lparr>learning_rule.learning_rate = 1 / 100\<rparr>)
   \<and> (None :: real option) \<noteq> Some (1 / 100)
   \<and> \<lparr>learning_rule.learning_rate = 1 / 100\<rparr> \<noteq> \<lparr>learning_rule.learning_rate = 1 / 2\<rparr>"
  by (simp add: ConstantLearningRateScheduler_update_learning_rule_def
      ConstantLearningRateScheduler_init_def)

text \<open>
  Claim C7, amended. For every epoch number, negative ones and zero included, the call
  assigns the rate the scheduler was built with to the \<^verbatim>\<open>learning_rate\<close> attribute of the
  learning rule, leaves the rest of the learning rule and the scheduler as they are, and
  returns no value (\<^verbatim>\<open>None\<close>).
\<close>

theorem constant_scheduler_assigns_rate:
  "ConstantLearningRateScheduler_update_learning_rule
     (ConstantLearningRateScheduler_init rate) learning_rule epoch_number =
   (None, ConstantLearningRateScheduler_init rate,
    learning_rule\<lparr>learning_rule.learning_rate := rate\<rparr>)
   \<and> learning_rule.learning_rate (learning_rule\<lparr>learning_rule.learning_rate := rate\<rparr>) = rate
   \<and> learning_rule.more (learning_rule\<lparr>learning_rule.learning_rate := rate\<rparr>) = learning_rule.more learning_rule"
  by (simp add: ConstantLearningRateScheduler_update_learning_rule_def ConstantLearningRateScheduler_init_def)

section \<open>Arguments outside the documented domain\<close>




text \<open>
  Against claim C9 as stated: a scheduler is constructed with period -10 and its first
  call, for epoch 0, raises nothing and returns the maximum rate 1.
\<close>

theorem negative_period_counterexample:
  "CosineAnnealingWithWarmRestarts_update_learning_rule counting_reset
      (CosineAnnealingWithWarmRestarts_init 0 1 (- 10) 1 1) fresh_rule 0 =
   Inr (1, (CosineAnnealingWithWarmRestarts_init 0 1 (- 10) 1 1)\<lparr>tCur := 1\<rparr>, fresh_rule)"
  by (simp add: update_learning_rule_eq CosineAnnealingWithWarmRestarts_init_def py_int_def cosine_rate_def)

text \<open>
  Claim C9, amended. The constructor never fails. A call raises exactly when the period
  is zero, and then it raises \<^verbatim>\<open>ZeroDivisionError\<close>, which reaches the caller; for every
  other period, negative ones included, the call returns a rate.
\<close>

theorem error_iff_zero_period:
  "(CosineAnnealingWithWarmRestarts_update_learning_rule reset self learning_rule epoch_number
      = Inl ZeroDivisionError) = (total_epochs_per_period self = 0)
   \<and> (\<exists>h self' learning_rule'.
        CosineAnnealingWithWarmRestarts_update_learning_rule reset self learning_rule epoch_number
          = Inr (h, self', learning_rule')) = (total_epochs_per_period self \<noteq> 0)"
  by (cases "total_epochs_per_period self = 0")
     (simp_all add: update_learning_rule_eq update_learning_rule_zero_period)

section \<open>What a call leaves unchanged\<close>

text \<open>
  Claim C10. A call that returns leaves the five hyperparameters of the scheduler as they
  were, and the learning rule after the call is the one before it, with its
  \<^verbatim>\<open>learning_rate\<close> as it was, unless the epoch number equals \<^verbatim>\<open>tNext\<close>, when it is the result
  of \<^verbatim>\<open>reset()\<close> on the one before: the scheduler itself assigns no attribute of the
  learning rule.
\<close>

theorem update_frame:
  "total_epochs_per_period self \<noteq> 0 \<Longrightarrow>
   \<exists>h self' learning_rule'.
     CosineAnnealingWithWarmRestarts_update_learning_rule reset self learning_rule epoch_number =
       Inr (h, self', learning_rule')
     \<and> learning_rule' =
         (if real_of_int epoch_number = tNext self then reset learning_rule else learning_rule)
     \<and> (real_of_int epoch_number \<noteq> tNext self \<longrightarrow>
          learning_rule.learning_rate learning_rule' = learning_rule.learning_rate learning_rule)
     \<and> hyperparameters self' = hyperparameters self"
  by (simp add: update_learning_rule_eq hyperparameters_def)

theorem update_frame_witness:
  "\<exists>h self'.
     CosineAnnealingWithWarmRestarts_update_learning_rule counting_reset scenario_discount fresh_rule 3 =
       Inr (h, self', fresh_rule)
     \<and> hyperparameters self' = (0, 1, 10, 1 / 2, 1)"
  using update_frame [of scenario_discount counting_reset fresh_rule 3]
  by (simp add: CosineAnnealingWithWarmRestarts_init_def hyperparameters_def)

end
